theory Spec2Isabelle
  imports Complex_Main
begin

section \<open>Contrastive losses of the ml-notebooks repository\<close>

text \<open>
  The two notebooks define the all-pairs cosine similarity of a batch and, on top of it,
  the functions \<^verbatim>\<open>nt_xent_loss(x, temperature)\<close> and
  \<^verbatim>\<open>nt_bxent_loss(x, pos_indices, temperature)\<close>. They are written with PyTorch
  tensors. The embedding below keeps the shape of that code:
  \<^item> a 2-d tensor is a list of rows, a 1-d tensor a list;
  \<^item> the embeddings handed in by the caller are finite numbers (\<open>real\<close>); rounding and
    overflow of 32-bit floating point are not modelled, and results about computed values
    hold up to that rounding;
  \<^item> the code writes \<^verbatim>\<open>float("inf")\<close> and \<^verbatim>\<open>float("-inf")\<close> into tensors and
    divides by caller-supplied numbers, so tensor elements computed by the code are values
    of \<open>fval\<close>, which adds the two infinities and NaN to the reals and follows IEEE 754 for
    the operations the code uses (signed zeros are not distinguished);
  \<^item> a Python exception is the \<open>Inl\<close> branch of a sum type.
\<close>

subsection \<open>Floating-point values with infinities and NaN\<close>

datatype fval = NaN | NInf | Fin real | PInf

text \<open>
  The code defines no exception of its own. What it can raise are Python's built-in
  exceptions, raised inside PyTorch: ValueError when \<^verbatim>\<open>F.cross_entropy\<close> gets a different
  number of rows and targets, IndexError for an index outside a tensor, RuntimeError when
  \<^verbatim>\<open>F.binary_cross_entropy\<close> gets an input outside [0, 1] or \<^verbatim>\<open>masked_scatter\<close> runs out
  of source elements, and TypeError for an argument of the wrong kind (used by the heap
  model only). The batch is two-dimensional by its type, so the assertion
  \<^verbatim>\<open>len(x.size()) == 2\<close> at the head of both functions holds.
\<close>

datatype error = ValueError | IndexError | RuntimeError | TypeError

fun fneg :: "fval \<Rightarrow> fval" where
  "fneg NaN = NaN"
| "fneg NInf = PInf"
| "fneg PInf = NInf"
| "fneg (Fin a) = Fin (- a)"

fun fadd :: "fval \<Rightarrow> fval \<Rightarrow> fval" where
  "fadd (Fin a) (Fin b) = Fin (a + b)"
| "fadd NaN _ = NaN"
| "fadd _ NaN = NaN"
| "fadd PInf NInf = NaN"
| "fadd NInf PInf = NaN"
| "fadd PInf _ = PInf"
| "fadd _ PInf = PInf"
| "fadd NInf _ = NInf"
| "fadd _ NInf = NInf"

definition fsub :: "fval \<Rightarrow> fval \<Rightarrow> fval" where
  "fsub a b = fadd a (fneg b)"

text \<open>
  IEEE division: a finite non-zero number over zero is an infinity, zero over zero and
  infinity over infinity are NaN, a finite number over an infinity is zero.
\<close>

fun fdiv :: "fval \<Rightarrow> fval \<Rightarrow> fval" where
  "fdiv (Fin a) (Fin b) =
     (if b \<noteq> 0 then Fin (a / b) else if a = 0 then NaN else if 0 < a then PInf else NInf)"
| "fdiv (Fin a) PInf = Fin 0"
| "fdiv (Fin a) NInf = Fin 0"
| "fdiv PInf (Fin b) = (if 0 \<le> b then PInf else NInf)"
| "fdiv NInf (Fin b) = (if 0 \<le> b then NInf else PInf)"
| "fdiv PInf PInf = NaN"
| "fdiv PInf NInf = NaN"
| "fdiv NInf PInf = NaN"
| "fdiv NInf NInf = NaN"
| "fdiv NaN _ = NaN"
| "fdiv _ NaN = NaN"

fun fexp :: "fval \<Rightarrow> fval" where
  "fexp NaN = NaN"
| "fexp NInf = Fin 0"
| "fexp PInf = PInf"
| "fexp (Fin a) = Fin (exp a)"

fun flog :: "fval \<Rightarrow> fval" where
  "flog NaN = NaN"
| "flog NInf = NaN"
| "flog PInf = PInf"
| "flog (Fin a) = (if a < 0 then NaN else if a = 0 then NInf else Fin (ln a))"

text \<open>The maximum of two values as \<^verbatim>\<open>torch.max\<close> takes it: NaN wins.\<close>

fun fmax :: "fval \<Rightarrow> fval \<Rightarrow> fval" where
  "fmax (Fin a) (Fin b) = Fin (max a b)"
| "fmax NaN _ = NaN"
| "fmax _ NaN = NaN"
| "fmax PInf _ = PInf"
| "fmax _ PInf = PInf"
| "fmax NInf b = b"
| "fmax a NInf = a"

text \<open>
  \<^verbatim>\<open>Tensor.sigmoid()\<close>: saturates to 0 and 1 at the infinities. On a finite input the
  definition is the exact real value. The 32-bit code rounds it, and for an input above
  about 16.6 the rounded value is exactly 1.0, so that \<open>log(1 - p)\<close> is \<open>-\<infinity>\<close> and the
  binary cross entropy below takes its clamp. Results that depend on the value of
  \<open>sigmoid\<close> at a finite input are therefore stated for inputs of absolute value at most
  10, where the exact and the rounded value agree up to rounding.
\<close>

fun sigmoid :: "fval \<Rightarrow> fval" where
  "sigmoid NaN = NaN"
| "sigmoid NInf = Fin 0"
| "sigmoid PInf = Fin 1"
| "sigmoid (Fin a) = Fin (1 / (1 + exp (- a)))"

text \<open>Sum of a 1-d tensor, and \<^verbatim>\<open>Tensor.mean()\<close>: the sum over the number of elements.\<close>

definition fsum :: "fval list \<Rightarrow> fval" where
  "fsum vs = foldr fadd vs (Fin 0)"

definition mean :: "fval list \<Rightarrow> fval" where
  "mean vs = fdiv (fsum vs) (Fin (real (length vs)))"

subsection \<open>All-pairs cosine similarity\<close>

text \<open>
  \<^verbatim>\<open>F.cosine_similarity(x1, x2, dim=-1, eps=1e-8)\<close> on two vectors is
  \<open>x1 \<cdot> x2 / (max(\<parallel>x1\<parallel>, eps) * max(\<parallel>x2\<parallel>, eps))\<close>.
\<close>

definition eps :: real where
  "eps = 1 / 10 ^ 8"

definition dot :: "real list \<Rightarrow> real list \<Rightarrow> real" where
  "dot x1 x2 = sum_list (map (\<lambda>(a, b). a * b) (zip x1 x2))"

definition vector_norm :: "real list \<Rightarrow> real" where
  "vector_norm x1 = sqrt (sum_list (map (\<lambda>a. a * a) x1))"

definition cosine_denominator :: "real list \<Rightarrow> real list \<Rightarrow> real" where
  "cosine_denominator x1 x2 = max (vector_norm x1) eps * max (vector_norm x2) eps"

definition cosine_similarity :: "real list \<Rightarrow> real list \<Rightarrow> fval" where
  "cosine_similarity x1 x2 = fdiv (Fin (dot x1 x2)) (Fin (cosine_denominator x1 x2))"

text \<open>
  \<^verbatim>\<open>xcs = F.cosine_similarity(x[None,:,:], x[:,None,:], dim=-1)\<close>. The first argument
  has shape (1, N, D) and the second (N, 1, D); broadcasting makes element (i, j) of the
  first \<open>x[j]\<close> and of the second \<open>x[i]\<close>, so \<open>xcs[i][j]\<close> compares \<open>x[j]\<close> with \<open>x[i]\<close>.
\<close>

definition cosine_similarity_matrix :: "real list list \<Rightarrow> fval list list" where
  "cosine_similarity_matrix x = map (\<lambda>xi. map (\<lambda>xj. cosine_similarity xj xi) x) x"

subsection \<open>Tensor construction and masks\<close>

text \<open>\<^verbatim>\<open>torch.zeros(n, m)\<close>, \<^verbatim>\<open>torch.eye(n)\<close>, \<^verbatim>\<open>torch.arange(n)\<close> and \<^verbatim>\<open>Tensor.bool()\<close>.\<close>

definition zeros :: "nat \<Rightarrow> nat \<Rightarrow> real list list" where
  "zeros n m = replicate n (replicate m 0)"

definition eye :: "nat \<Rightarrow> real list list" where
  "eye n = map (\<lambda>i. map (\<lambda>j. if i = j then 1 else 0) [0..<n]) [0..<n]"

definition arange :: "nat \<Rightarrow> int list" where
  "arange n = map int [0..<n]"

definition bool :: "real list list \<Rightarrow> bool list list" where
  "bool t = map (map (\<lambda>v. v \<noteq> 0)) t"

text \<open>
  The masked assignment \<^verbatim>\<open>t[mask] = v\<close> with a boolean mask of the shape of \<open>t\<close>:
  every element under a true mask entry becomes \<open>v\<close>.
\<close>

definition masked_fill :: "'a list list \<Rightarrow> bool list list \<Rightarrow> 'a \<Rightarrow> 'a list list" where
  "masked_fill t msk v =
     map (\<lambda>(row, mrow). map (\<lambda>(e, m). if m then v else e) (zip row mrow)) (zip t msk)"

subsection \<open>Errors inside tensor operations\<close>

text \<open>
  An elementwise operation that can raise is a list of results; the operation as a whole
  raises the first error and otherwise returns all the values.
\<close>

fun collect :: "(error + 'a) list \<Rightarrow> error + 'a list" where
  "collect [] = Inr []"
| "collect (r # rs) =
     (case r of
        Inl e \<Rightarrow> Inl e
      | Inr v \<Rightarrow> (case collect rs of Inl e \<Rightarrow> Inl e | Inr vs \<Rightarrow> Inr (v # vs)))"

subsection \<open>Ground-truth labels of NT-BXent\<close>

text \<open>
  \<^verbatim>\<open>torch.arange(n).reshape(n, 1).expand(-1, 2)\<close> is the (n, 2) tensor whose row \<open>k\<close> is
  \<open>(k, k)\<close>.
\<close>

definition diagonal_indices :: "nat \<Rightarrow> (int \<times> int) list" where
  "diagonal_indices n = map (\<lambda>k. (k, k)) (arange n)"

text \<open>
  An index into a dimension of size \<open>n\<close>: PyTorch accepts \<open>-n \<le> i < n\<close>, counting negative
  indices from the end, and raises IndexError otherwise.
\<close>

definition wrap_index :: "nat \<Rightarrow> int \<Rightarrow> error + nat" where
  "wrap_index n i =
     (if 0 \<le> i \<and> i < int n then Inr (nat i)
      else if - int n \<le> i \<and> i < 0 then Inr (nat (i + int n))
      else Inl IndexError)"

text \<open>
  \<^verbatim>\<open>t[idx[:,0], idx[:,1]] = v\<close>: every row \<open>(i, j)\<close> of the index tensor names one element
  of \<open>t\<close>, which is overwritten with \<open>v\<close>.
\<close>

fun index_put :: "real list list \<Rightarrow> (int \<times> int) list \<Rightarrow> real \<Rightarrow> error + real list list" where
  "index_put t [] v = Inr t"
| "index_put t ((i, j) # idx) v =
     (case wrap_index (length t) i of
        Inl e \<Rightarrow> Inl e
      | Inr r \<Rightarrow>
          (case wrap_index (length (t ! r)) j of
             Inl e \<Rightarrow> Inl e
           | Inr c \<Rightarrow> index_put (t[r := (t ! r)[c := v]]) idx v))"

text \<open>
  The first two statements of \<^verbatim>\<open>nt_bxent_loss\<close>: the diagonal is appended to
  \<^verbatim>\<open>pos_indices\<close> and the ones are written into a fresh \<^verbatim>\<open>torch.zeros(n, n)\<close>.
\<close>

definition target_matrix :: "nat \<Rightarrow> (int \<times> int) list \<Rightarrow> error + real list list" where
  "target_matrix n pos_indices = index_put (zeros n n) (pos_indices @ diagonal_indices n) 1"

subsection \<open>Binary cross entropy\<close>

text \<open>
  \<^verbatim>\<open>F.binary_cross_entropy(input, target, reduction="none")\<close>. Every input element must
  lie in [0, 1] (NaN does not), else the call raises RuntimeError. PyTorch clamps both
  logarithms from below at -100, which also covers \<open>log 0 = -\<infinity>\<close>; the element loss is
  \<open>(y - 1) * max(log(1 - p), -100) - y * max(log(p), -100)\<close>.
\<close>

definition clamped_log :: "real \<Rightarrow> real" where
  "clamped_log p = (if p \<le> 0 then - 100 else max (ln p) (- 100))"

definition bce :: "real \<Rightarrow> real \<Rightarrow> real" where
  "bce p y = (y - 1) * clamped_log (1 - p) - y * clamped_log p"

fun bce_element :: "fval \<Rightarrow> real \<Rightarrow> error + real" where
  "bce_element (Fin p) y = (if 0 \<le> p \<and> p \<le> 1 then Inr (bce p y) else Inl RuntimeError)"
| "bce_element _ y = Inl RuntimeError"

definition binary_cross_entropy :: "fval list list \<Rightarrow> real list list \<Rightarrow> error + real list list" where
  "binary_cross_entropy input target =
     collect (map (\<lambda>(irow, trow). collect (map (\<lambda>(p, y). bce_element p y) (zip irow trow)))
                  (zip input target))"

subsection \<open>Masked selection and scattering\<close>

text \<open>
  \<^verbatim>\<open>t[mask]\<close> with a boolean mask is the 1-d tensor of the elements under a true mask
  entry, in row-major order.
\<close>

definition masked_select :: "real list list \<Rightarrow> bool list list \<Rightarrow> real list" where
  "masked_select t msk =
     concat (map (\<lambda>(row, mrow). map fst (filter snd (zip row mrow))) (zip t msk))"

text \<open>
  \<^verbatim>\<open>dest.masked_scatter(mask, source)\<close> walks \<open>dest\<close> in row-major order and replaces
  each element under a true mask entry by the next unused element of \<open>source\<close>; it raises
  RuntimeError when \<open>source\<close> runs out. The functions return the unused rest of the source
  to the next row.
\<close>

fun scatter_row :: "(real \<times> bool) list \<Rightarrow> real list \<Rightarrow> error + real list \<times> real list" where
  "scatter_row [] src = Inr ([], src)"
| "scatter_row ((d, m) # dms) src =
     (if m then
        (case src of
           [] \<Rightarrow> Inl RuntimeError
         | s # src' \<Rightarrow>
             (case scatter_row dms src' of
                Inl e \<Rightarrow> Inl e
              | Inr (row, rest) \<Rightarrow> Inr (s # row, rest)))
      else
        (case scatter_row dms src of
           Inl e \<Rightarrow> Inl e
         | Inr (row, rest) \<Rightarrow> Inr (d # row, rest)))"

fun scatter_rows :: "(real list \<times> bool list) list \<Rightarrow> real list \<Rightarrow> error + real list list" where
  "scatter_rows [] src = Inr []"
| "scatter_rows ((d, m) # rows) src =
     (case scatter_row (zip d m) src of
        Inl e \<Rightarrow> Inl e
      | Inr (row, rest) \<Rightarrow>
          (case scatter_rows rows rest of
             Inl e \<Rightarrow> Inl e
           | Inr rs \<Rightarrow> Inr (row # rs)))"

definition masked_scatter :: "real list list \<Rightarrow> bool list list \<Rightarrow> real list \<Rightarrow> error + real list list" where
  "masked_scatter dest msk src = scatter_rows (zip dest msk) src"

subsection \<open>The NT-BXent loss\<close>

text \<open>\<^verbatim>\<open>xcs / temperature\<close>: every element is divided by the Python float.\<close>

definition scale :: "fval list list \<Rightarrow> real \<Rightarrow> fval list list" where
  "scale t temperature = map (map (\<lambda>v. fdiv v (Fin temperature))) t"

text \<open>
  The part of \<^verbatim>\<open>nt_bxent_loss\<close> after the element losses: the losses of positive and of
  negative pairs are scattered into two zero matrices, summed along each row, divided by
  the number of positives and negatives of the row, added and averaged over the rows.
\<close>

definition class_balanced_mean :: "nat \<Rightarrow> real list list \<Rightarrow> real list list \<Rightarrow> error + fval" where
  "class_balanced_mean n target loss =
     (let target_pos = bool target;
          target_neg = map (map Not) target_pos
      in case masked_scatter (zeros n n) target_pos (masked_select loss target_pos) of
           Inl e \<Rightarrow> Inl e
         | Inr loss_pos \<Rightarrow>
             (case masked_scatter (zeros n n) target_neg (masked_select loss target_neg) of
                Inl e \<Rightarrow> Inl e
              | Inr loss_neg \<Rightarrow>
                  let loss_pos = map sum_list loss_pos;
                      loss_neg = map sum_list loss_neg;
                      num_pos = map sum_list target;
                      num_neg = map (\<lambda>p. real n - p) num_pos
                  in Inr (mean (map (\<lambda>((lp, np), (lq, nq)).
                                       fadd (fdiv (Fin lp) (Fin np)) (fdiv (Fin lq) (Fin nq)))
                                    (zip (zip loss_pos num_pos) (zip loss_neg num_neg))))))"

text \<open>
  The part of \<^verbatim>\<open>nt_bxent_loss\<close> after the sentinel has been written into \<open>xcs\<close>.
\<close>

definition bxent_of_similarity :: "nat \<Rightarrow> real list list \<Rightarrow> fval list list \<Rightarrow> real \<Rightarrow> error + fval" where
  "bxent_of_similarity n target xcs temperature =
     (case binary_cross_entropy (map (map sigmoid) (scale xcs temperature)) target of
        Inl e \<Rightarrow> Inl e
      | Inr loss \<Rightarrow> class_balanced_mean n target loss)"

definition nt_bxent_loss :: "real list list \<Rightarrow> (int \<times> int) list \<Rightarrow> real \<Rightarrow> error + fval" where
  "nt_bxent_loss x pos_indices temperature =
     (let n = length x
      in case target_matrix n pos_indices of
           Inl e \<Rightarrow> Inl e
         | Inr target \<Rightarrow>
             let xcs = masked_fill (cosine_similarity_matrix x) (bool (eye n)) PInf
             in bxent_of_similarity n target xcs temperature)"

subsection \<open>The NT-Xent loss\<close>

text \<open>
  The in-place strided updates \<^verbatim>\<open>t[start::step] += d\<close> on a 1-d tensor, and the
  ground-truth labels as the function builds them:
  \<^verbatim>\<open>target = torch.arange(8); target[0::2] += 1; target[1::2] -= 1\<close>.
\<close>

definition strided_add :: "nat \<Rightarrow> nat \<Rightarrow> int \<Rightarrow> int list \<Rightarrow> int list" where
  "strided_add start step d t =
     map (\<lambda>(k, v). if start \<le> k \<and> (k - start) mod step = 0 then v + d else v)
         (zip [0..<length t] t)"

definition nt_xent_target :: "int list" where
  "nt_xent_target = strided_add 1 2 (- 1) (strided_add 0 2 1 (arange 8))"

text \<open>
  \<^verbatim>\<open>F.cross_entropy(input, target, reduction="mean")\<close> with class-index targets. The
  batch sizes of input and target must agree, else ValueError. Each row goes through
  \<^verbatim>\<open>log_softmax\<close>, computed as PyTorch does by subtracting the row maximum; the loss of
  a row is minus the entry at its target class, which must be a class index (IndexError
  otherwise); the result is the mean over the rows.
\<close>

definition log_softmax :: "fval list \<Rightarrow> fval list" where
  "log_softmax row =
     (let m = foldr fmax row NInf;
          s = fsum (map (\<lambda>v. fexp (fsub v m)) row)
      in map (\<lambda>v. fsub (fsub v m) (flog s)) row)"

definition nll :: "fval list \<Rightarrow> int \<Rightarrow> error + fval" where
  "nll logp c =
     (if 0 \<le> c \<and> c < int (length logp) then Inr (fneg (logp ! nat c)) else Inl IndexError)"

definition cross_entropy :: "fval list list \<Rightarrow> int list \<Rightarrow> error + fval" where
  "cross_entropy input target =
     (if length input \<noteq> length target then Inl ValueError
      else case collect (map (\<lambda>(row, c). nll (log_softmax row) c) (zip input target)) of
             Inl e \<Rightarrow> Inl e
           | Inr losses \<Rightarrow> Inr (mean losses))"

definition nt_xent_loss :: "real list list \<Rightarrow> real \<Rightarrow> error + fval" where
  "nt_xent_loss x temperature =
     (let xcs = masked_fill (cosine_similarity_matrix x) (bool (eye (length x))) NInf;
          target = nt_xent_target
      in cross_entropy (scale xcs temperature) target)"

subsection \<open>The loss functions on a heap of tensors\<close>

text \<open>
  The functions receive references to the caller's tensors and contain in-place
  statements (\<^verbatim>\<open>target[...] = 1.0\<close>, \<^verbatim>\<open>xcs[...] = float("inf")\<close>,
  \<^verbatim>\<open>target[0::2] += 1\<close>). To say what a call does to the caller's data, both
  functions are modelled a second time on a heap: a list of tensors addressed by position.
  A Python name holds an address; creating a tensor (\<^verbatim>\<open>torch.cat\<close>, \<^verbatim>\<open>torch.zeros\<close>,
  \<^verbatim>\<open>torch.arange\<close>, \<^verbatim>\<open>F.cosine_similarity\<close>) appends it to the heap; an in-place
  statement overwrites the tensor at the address it names. The views \<^verbatim>\<open>x[None,:,:]\<close>
  and \<^verbatim>\<open>x[:,None,:]\<close> are only read. The assignment
  \<^verbatim>\<open>pos_indices = torch.cat(...)\<close> rebinds the local name to the address of the new
  tensor. An address that holds a tensor of the wrong kind gives TypeError.
\<close>

datatype tensor =
    FloatTensor "real list list"
  | ValueTensor "fval list list"
  | IndexTensor "(int \<times> int) list"
  | LabelTensor "int list"

type_synonym heap = "tensor list"

definition new_tensor :: "tensor \<Rightarrow> heap \<Rightarrow> nat \<times> heap" where
  "new_tensor v h = (length h, h @ [v])"

definition index_put_inplace :: "nat \<Rightarrow> nat \<Rightarrow> real \<Rightarrow> heap \<Rightarrow> (error + unit) \<times> heap" where
  "index_put_inplace target idx v h =
     (case (h ! target, h ! idx) of
        (FloatTensor t, IndexTensor ps) \<Rightarrow>
          (case index_put t ps v of
             Inl e \<Rightarrow> (Inl e, h)
           | Inr t' \<Rightarrow> (Inr (), h[target := FloatTensor t']))
      | _ \<Rightarrow> (Inl TypeError, h))"

definition masked_fill_inplace :: "nat \<Rightarrow> bool list list \<Rightarrow> fval \<Rightarrow> heap \<Rightarrow> heap" where
  "masked_fill_inplace a msk v h =
     (case h ! a of
        ValueTensor t \<Rightarrow> h[a := ValueTensor (masked_fill t msk v)]
      | _ \<Rightarrow> h)"

definition strided_add_inplace :: "nat \<Rightarrow> nat \<Rightarrow> nat \<Rightarrow> int \<Rightarrow> heap \<Rightarrow> heap" where
  "strided_add_inplace a start step d h =
     (case h ! a of
        LabelTensor t \<Rightarrow> h[a := LabelTensor (strided_add start step d t)]
      | _ \<Rightarrow> h)"

definition nt_bxent_loss_heap :: "nat \<Rightarrow> nat \<Rightarrow> real \<Rightarrow> heap \<Rightarrow> (error + fval) \<times> heap" where
  "nt_bxent_loss_heap x pos_indices temperature h =
     (case (h ! x, h ! pos_indices) of
        (FloatTensor xv, IndexTensor pv) \<Rightarrow>
          let n = length xv;
              (pos_indices, h) = new_tensor (IndexTensor (pv @ diagonal_indices n)) h;
              (target, h) = new_tensor (FloatTensor (zeros n n)) h
          in (case index_put_inplace target pos_indices 1 h of
                (Inl e, h) \<Rightarrow> (Inl e, h)
              | (Inr u, h) \<Rightarrow>
                  let (xcs, h) = new_tensor (ValueTensor (cosine_similarity_matrix xv)) h;
                      h = masked_fill_inplace xcs (bool (eye n)) PInf h
                  in (case (h ! target, h ! xcs) of
                        (FloatTensor tv, ValueTensor cv) \<Rightarrow>
                          (bxent_of_similarity n tv cv temperature, h)
                      | _ \<Rightarrow> (Inl TypeError, h)))
      | _ \<Rightarrow> (Inl TypeError, h))"

definition nt_xent_loss_heap :: "nat \<Rightarrow> real \<Rightarrow> heap \<Rightarrow> (error + fval) \<times> heap" where
  "nt_xent_loss_heap x temperature h =
     (case h ! x of
        FloatTensor xv \<Rightarrow>
          let (xcs, h) = new_tensor (ValueTensor (cosine_similarity_matrix xv)) h;
              h = masked_fill_inplace xcs (bool (eye (length xv))) NInf h;
              (target, h) = new_tensor (LabelTensor (arange 8)) h;
              h = strided_add_inplace target 0 2 1 h;
              h = strided_add_inplace target 1 2 (- 1) h
          in (case (h ! xcs, h ! target) of
                (ValueTensor cv, LabelTensor tv) \<Rightarrow> (cross_entropy (scale cv temperature) tv, h)
              | _ \<Rightarrow> (Inl TypeError, h))
      | _ \<Rightarrow> (Inl TypeError, h))"

subsection \<open>The NT-BXent loss as the specification states it\<close>

text \<open>
  In this order: the similarity of two batch elements, the binary target, the probability
  after the sigmoid (exactly 1 on the diagonal, where the sentinel sits), the element
  loss \<open>-(T log P + (1 - T) log(1 - P))\<close> with no clamp, the positive and negative columns
  of a row, the row loss and the mean over the rows.
\<close>

text \<open>A positive-pair list whose indices all lie in \<open>[0, n)\<close>.\<close>

definition in_range :: "nat \<Rightarrow> (int \<times> int) list \<Rightarrow> bool" where
  "in_range n P = list_all (\<lambda>(i, j). 0 \<le> i \<and> i < int n \<and> 0 \<le> j \<and> j < int n) P"

definition spec_similarity :: "real list list \<Rightarrow> nat \<Rightarrow> nat \<Rightarrow> real" where
  "spec_similarity x i j =
     dot (x ! i) (x ! j) / (max (vector_norm (x ! i)) eps * max (vector_norm (x ! j)) eps)"

definition spec_target :: "(int \<times> int) list \<Rightarrow> nat \<Rightarrow> nat \<Rightarrow> real" where
  "spec_target P i j = (if (int i, int j) \<in> set P \<or> i = j then 1 else 0)"

definition spec_probability :: "real list list \<Rightarrow> real \<Rightarrow> nat \<Rightarrow> nat \<Rightarrow> real" where
  "spec_probability x t i j =
     (if i = j then 1 else 1 / (1 + exp (- (spec_similarity x i j / t))))"

definition spec_bce :: "real list list \<Rightarrow> (int \<times> int) list \<Rightarrow> real \<Rightarrow> nat \<Rightarrow> nat \<Rightarrow> real" where
  "spec_bce x P t i j =
     - (spec_target P i j * ln (spec_probability x t i j)
        + (1 - spec_target P i j) * ln (1 - spec_probability x t i j))"

definition positives :: "(int \<times> int) list \<Rightarrow> nat \<Rightarrow> nat \<Rightarrow> nat list" where
  "positives P n i = filter (\<lambda>j. spec_target P i j = 1) [0..<n]"

definition negatives :: "(int \<times> int) list \<Rightarrow> nat \<Rightarrow> nat \<Rightarrow> nat list" where
  "negatives P n i = filter (\<lambda>j. spec_target P i j = 0) [0..<n]"

definition spec_row_loss :: "real list list \<Rightarrow> (int \<times> int) list \<Rightarrow> real \<Rightarrow> nat \<Rightarrow> real" where
  "spec_row_loss x P t i =
     sum_list (map (spec_bce x P t i) (positives P (length x) i))
       / real (length (positives P (length x) i))
     + sum_list (map (spec_bce x P t i) (negatives P (length x) i))
       / real (length (negatives P (length x) i))"

definition spec_nt_bxent :: "real list list \<Rightarrow> (int \<times> int) list \<Rightarrow> real \<Rightarrow> real" where
  "spec_nt_bxent x P t = sum_list (map (spec_row_loss x P t) [0..<length x]) / real (length x)"

subsection \<open>The NT-Xent loss as the specification states it\<close>

text \<open>
  The partner of a row under the cyclic pairing; the exponential of a scaled logit, which
  is 0 on the diagonal where the logit is \<open>-\<infinity>\<close>; the softmax cross entropy of a row
  against its partner; and the mean over the rows.
\<close>

definition partner :: "nat \<Rightarrow> nat" where
  "partner i = (if even i then i + 1 else i - 1)"

definition spec_exp_logit :: "real list list \<Rightarrow> real \<Rightarrow> nat \<Rightarrow> nat \<Rightarrow> real" where
  "spec_exp_logit x t i j = (if i = j then 0 else exp (spec_similarity x i j / t))"

definition spec_xent_row :: "real list list \<Rightarrow> real \<Rightarrow> nat \<Rightarrow> real" where
  "spec_xent_row x t i =
     - ln (spec_exp_logit x t i (partner i) / sum_list (map (spec_exp_logit x t i) [0..<length x]))"

definition spec_nt_xent :: "real list list \<Rightarrow> real \<Rightarrow> real" where
  "spec_nt_xent x t = sum_list (map (spec_xent_row x t) [0..<length x]) / real (length x)"

subsection \<open>Matrices given by their entries\<close>

text \<open>The \<open>n \<times> n\<close> matrix with entry \<open>f i j\<close> in row \<open>i\<close> and column \<open>j\<close>; used in proofs.\<close>

definition matrix_of :: "nat \<Rightarrow> (nat \<Rightarrow> nat \<Rightarrow> 'a) \<Rightarrow> 'a list list" where
  "matrix_of n f = map (\<lambda>i. map (f i) [0..<n]) [0..<n]"

text \<open>
  The element loss that \<^verbatim>\<open>F.binary_cross_entropy\<close> returns at \<open>(i, j)\<close> for a positive
  temperature, with both logarithms clamped at -100; used in proofs.
\<close>

definition element_loss :: "real list list \<Rightarrow> (int \<times> int) list \<Rightarrow> real \<Rightarrow> nat \<Rightarrow> nat \<Rightarrow> real" where
  "element_loss x P t i j = bce (spec_probability x t i j) (spec_target P i j)"

subsection \<open>Results on the similarity matrix\<close>

lemma dot_commute: "dot a b = dot b a"
proof -
  have "map (\<lambda>(u, v). u * v) (zip a b) = map (\<lambda>(u, v). u * v) (zip b a)"
  proof (induction a arbitrary: b)
    case Nil
    then show ?case by simp
  next
    case (Cons h a)
    then show ?case by (cases b) (simp_all add: mult.commute)
  qed
  then show ?thesis by (simp add: dot_def)
qed

lemma eps_pos: "0 < eps"
  by (simp add: eps_def)

lemma cosine_denominator_pos: "0 < cosine_denominator a b"
proof -
  have "0 < max (vector_norm a) eps" "0 < max (vector_norm b) eps"
    using eps_pos by (simp_all add: less_max_iff_disj)
  then show ?thesis by (simp add: cosine_denominator_def)
qed

lemma cosine_denominator_commute: "cosine_denominator a b = cosine_denominator b a"
  by (simp add: cosine_denominator_def mult.commute)

lemma cosine_similarity_Fin:
  "cosine_similarity a b = Fin (dot a b / cosine_denominator a b)"
  using cosine_denominator_pos [of a b] by (simp add: cosine_similarity_def)

lemma cosine_similarity_commute: "cosine_similarity a b = cosine_similarity b a"
  by (simp add: cosine_similarity_Fin dot_commute cosine_denominator_commute)

lemma cosine_similarity_matrix_nth:
  "i < length x \<Longrightarrow> j < length x \<Longrightarrow>
   cosine_similarity_matrix x ! i ! j = cosine_similarity (x ! j) (x ! i)"
  by (simp add: cosine_similarity_matrix_def)

lemma dot_zero_left: "\<forall>v \<in> set a. v = 0 \<Longrightarrow> dot a b = 0"
proof -
  assume z: "\<forall>v \<in> set a. v = 0"
  then have "sum_list (map (\<lambda>(u, v). u * v) (zip a b)) = 0"
  proof (induction a arbitrary: b)
    case Nil
    then show ?case by simp
  next
    case (Cons h a)
    then show ?case by (cases b) simp_all
  qed
  then show ?thesis by (simp add: dot_def)
qed

text \<open>
  Claim C7. The cosine-similarity matrix of every batch is symmetric: the entries
  \<open>M[i][j]\<close> and \<open>M[j][i]\<close> are equal for all row and column indices below \<open>N\<close>.
\<close>

theorem cosine_similarity_matrix_symmetric:
  assumes "i < length x" and "j < length x"
  shows "cosine_similarity_matrix x ! i ! j = cosine_similarity_matrix x ! j ! i"
  using assms by (simp add: cosine_similarity_matrix_nth cosine_similarity_commute)

theorem cosine_similarity_matrix_symmetric_witness:
  "(0::nat) < length [[1, 2], [3, 4 :: real]] \<and> (1::nat) < length [[1, 2], [3, 4 :: real]] \<and>
   cosine_similarity_matrix [[1, 2], [3, 4]] ! 0 ! 1 = cosine_similarity_matrix [[1, 2], [3, 4]] ! 1 ! 0"
  using cosine_similarity_matrix_symmetric [of 0 "[[1, 2], [3, 4]]" 1] by simp

text \<open>
  Claim C10. When the vector at index \<open>i\<close> of the batch is all zeros, the raw similarity
  matrix (before any sentinel is written) is still well defined: the divisor of every
  entry is positive because each norm is floored at \<open>eps\<close>, and every entry of row \<open>i\<close> and
  of column \<open>i\<close>, the diagonal entry \<open>M[i][i]\<close> included, is the number 0, neither 1 nor NaN.
\<close>

theorem cosine_similarity_zero_vector:
  assumes "i < length x" and "j < length x" and "\<forall>v \<in> set (x ! i). v = 0"
  shows "0 < cosine_denominator (x ! j) (x ! i) \<and> 0 < cosine_denominator (x ! i) (x ! j) \<and>
         cosine_similarity_matrix x ! i ! j = Fin 0 \<and>
         cosine_similarity_matrix x ! j ! i = Fin 0 \<and>
         cosine_similarity_matrix x ! i ! i = Fin 0"
proof -
  have "dot (x ! i) (x ! j) = 0" "dot (x ! i) (x ! i) = 0"
    using assms(3) by (simp_all add: dot_zero_left)
  moreover have "dot (x ! j) (x ! i) = 0"
    using assms(3) by (simp add: dot_commute [of "x ! j"] dot_zero_left)
  ultimately show ?thesis
    using assms(1,2)
    by (simp add: cosine_similarity_matrix_nth cosine_similarity_Fin cosine_denominator_pos)
qed

theorem cosine_similarity_zero_vector_witness:
  "(0::nat) < length [[0, 0], [3, 4 :: real]] \<and> (1::nat) < length [[0, 0], [3, 4 :: real]] \<and>
   cosine_similarity_matrix [[0, 0], [3, 4]] ! 0 ! 1 = Fin 0 \<and>
   cosine_similarity_matrix [[0, 0], [3, 4]] ! 1 ! 0 = Fin 0 \<and>
   cosine_similarity_matrix [[0, 0], [3, 4]] ! 0 ! 0 = Fin 0"
  using cosine_similarity_zero_vector [of 0 "[[0, 0], [3, 4]]" 1] by simp

subsection \<open>Matrices, masks and sums\<close>

lemma length_matrix_of [simp]: "length (matrix_of n f) = n"
  by (simp add: matrix_of_def)

lemma nth_matrix_of: "i < n \<Longrightarrow> matrix_of n f ! i = map (f i) [0..<n]"
  by (simp add: matrix_of_def)

lemma length_nth_matrix_of [simp]: "i < n \<Longrightarrow> length (matrix_of n f ! i) = n"
  by (simp add: matrix_of_def)

lemma matrix_of_cong:
  assumes "\<And>i j. i < n \<Longrightarrow> j < n \<Longrightarrow> f i j = g i j"
  shows "matrix_of n f = matrix_of n g"
  unfolding matrix_of_def
proof (rule map_cong [OF refl], rule map_cong [OF refl])
  fix i j
  assume "i \<in> set [0..<n]" and "j \<in> set [0..<n]"
  then have "i < n" and "j < n" by simp_all
  then show "f i j = g i j" by (rule assms)
qed

lemma map_by_index: "map f xs = map (\<lambda>i. f (xs ! i)) [0..<length xs]"
  by (rule nth_equalityI) simp_all

lemma zip_map_same: "zip (map f xs) (map g xs) = map (\<lambda>a. (f a, g a)) xs"
  by (induction xs) simp_all

lemma zeros_matrix_of: "zeros n n = matrix_of n (\<lambda>i j. 0)"
  by (simp add: zeros_def matrix_of_def map_replicate_const)

lemma bool_eye_matrix_of: "bool (eye n) = matrix_of n (\<lambda>i j. i = j)"
  by (simp add: bool_def eye_def matrix_of_def)

lemma cosine_similarity_matrix_of:
  "cosine_similarity_matrix x = matrix_of (length x) (\<lambda>i j. cosine_similarity (x ! j) (x ! i))"
proof (rule nth_equalityI)
  show "length (cosine_similarity_matrix x) =
        length (matrix_of (length x) (\<lambda>i j. cosine_similarity (x ! j) (x ! i)))"
    by (simp add: cosine_similarity_matrix_def)
next
  fix i
  assume "i < length (cosine_similarity_matrix x)"
  then have i: "i < length x" by (simp add: cosine_similarity_matrix_def)
  have "map (\<lambda>xj. cosine_similarity xj (x ! i)) x =
        map (\<lambda>j. cosine_similarity (x ! j) (x ! i)) [0..<length x]"
    by (rule map_by_index)
  then show "cosine_similarity_matrix x ! i =
        matrix_of (length x) (\<lambda>i j. cosine_similarity (x ! j) (x ! i)) ! i"
    using i by (simp add: cosine_similarity_matrix_def nth_matrix_of)
qed

lemma map_map_matrix_of: "map (map g) (matrix_of n f) = matrix_of n (\<lambda>i j. g (f i j))"
  by (simp add: matrix_of_def)

lemma masked_fill_matrix_of:
  "masked_fill (matrix_of n f) (matrix_of n m) v = matrix_of n (\<lambda>i j. if m i j then v else f i j)"
  by (simp add: masked_fill_def matrix_of_def zip_map_same)

lemma scale_matrix_of: "scale (matrix_of n f) t = matrix_of n (\<lambda>i j. fdiv (f i j) (Fin t))"
  by (simp add: scale_def map_map_matrix_of)

lemma matrix_of_update:
  assumes "r < n" "c < n"
  shows "(matrix_of n f)[r := (matrix_of n f ! r)[c := v]] =
         matrix_of n (\<lambda>i j. if i = r \<and> j = c then v else f i j)"
  using assms by (auto simp add: list_eq_iff_nth_eq nth_list_update nth_matrix_of)

lemma index_put_matrix_of:
  assumes "\<forall>(i, j) \<in> set idx. 0 \<le> i \<and> i < int n \<and> 0 \<le> j \<and> j < int n"
  shows "index_put (matrix_of n f) idx v =
         Inr (matrix_of n (\<lambda>i j. if (int i, int j) \<in> set idx then v else f i j))"
  using assms
proof (induction idx arbitrary: f)
  case Nil
  then show ?case by simp
next
  case (Cons p idx)
  obtain a b where p: "p = (a, b)" by (cases p)
  from Cons.prems p have ab: "0 \<le> a" "a < int n" "0 \<le> b" "b < int n" by simp_all
  then have r: "nat a < n" "nat b < n" by simp_all
  have rest: "\<forall>(i, j) \<in> set idx. 0 \<le> i \<and> i < int n \<and> 0 \<le> j \<and> j < int n"
    using Cons.prems by simp
  have "index_put (matrix_of n f) (p # idx) v =
        index_put (matrix_of n (\<lambda>i j. if i = nat a \<and> j = nat b then v else f i j)) idx v"
    using ab r by (simp add: p wrap_index_def matrix_of_update)
  also have "\<dots> = Inr (matrix_of n (\<lambda>i j. if (int i, int j) \<in> set idx then v
                        else if i = nat a \<and> j = nat b then v else f i j))"
    by (rule Cons.IH [OF rest])
  also have "matrix_of n (\<lambda>i j. if (int i, int j) \<in> set idx then v
                        else if i = nat a \<and> j = nat b then v else f i j) =
             matrix_of n (\<lambda>i j. if (int i, int j) \<in> set (p # idx) then v else f i j)"
    using ab by (intro matrix_of_cong) (auto simp add: p)
  finally show ?case .
qed

lemma collect_Inr:
  assumes "\<And>a. a \<in> set xs \<Longrightarrow> g a = Inr (f a)"
  shows "collect (map g xs) = Inr (map f xs)"
  using assms by (induction xs) simp_all

lemma bool_matrix_of: "bool (matrix_of n f) = matrix_of n (\<lambda>i j. f i j \<noteq> 0)"
  by (simp add: bool_def map_map_matrix_of)

lemma zip_matrix_of:
  "zip (matrix_of n f) (matrix_of n g) = map (\<lambda>i. (map (f i) [0..<n], map (g i) [0..<n])) [0..<n]"
  by (simp add: matrix_of_def zip_map_same)

lemma binary_cross_entropy_matrix_of:
  assumes "\<And>i j. i < n \<Longrightarrow> j < n \<Longrightarrow> 0 \<le> q i j \<and> q i j \<le> 1"
  shows "binary_cross_entropy (matrix_of n (\<lambda>i j. Fin (q i j))) (matrix_of n y) =
         Inr (matrix_of n (\<lambda>i j. bce (q i j) (y i j)))"
proof -
  have row: "collect (map (\<lambda>(p, t). bce_element p t)
                          (zip (map (\<lambda>j. Fin (q i j)) [0..<n]) (map (y i) [0..<n]))) =
             Inr (map (\<lambda>j. bce (q i j) (y i j)) [0..<n])" if "i < n" for i
  proof -
    have "collect (map (\<lambda>j. bce_element (Fin (q i j)) (y i j)) [0..<n]) =
          Inr (map (\<lambda>j. bce (q i j) (y i j)) [0..<n])"
      by (rule collect_Inr) (use assms [OF that] in simp)
    then show ?thesis by (simp add: zip_map_same comp_def)
  qed
  have "binary_cross_entropy (matrix_of n (\<lambda>i j. Fin (q i j))) (matrix_of n y) =
        collect (map (\<lambda>i. collect (map (\<lambda>(p, t). bce_element p t)
                   (zip (map (\<lambda>j. Fin (q i j)) [0..<n]) (map (y i) [0..<n])))) [0..<n])"
    by (simp add: binary_cross_entropy_def zip_matrix_of comp_def)
  also have "\<dots> = Inr (map (\<lambda>i. map (\<lambda>j. bce (q i j) (y i j)) [0..<n]) [0..<n])"
    by (rule collect_Inr) (simp add: row)
  finally show ?thesis by (simp add: matrix_of_def)
qed

lemma scatter_row_select:
  "scatter_row (zip (map d js) (map m js))
               (map fst (filter snd (zip (map l js) (map m js))) @ rest) =
   Inr (map (\<lambda>j. if m j then l j else d j) js, rest)"
  by (induction js arbitrary: rest) simp_all

lemma scatter_rows_select:
  "scatter_rows (zip (map (\<lambda>i. map (d i) js) rs) (map (\<lambda>i. map (m i) js) rs))
                (concat (map (\<lambda>(row, mrow). map fst (filter snd (zip row mrow)))
                             (zip (map (\<lambda>i. map (l i) js) rs) (map (\<lambda>i. map (m i) js) rs))) @ rest) =
   Inr (map (\<lambda>i. map (\<lambda>j. if m i j then l i j else d i j) js) rs)"
  by (induction rs arbitrary: rest) (simp_all add: scatter_row_select)

lemma masked_scatter_select:
  "masked_scatter (matrix_of n d) (matrix_of n m) (masked_select (matrix_of n l) (matrix_of n m)) =
   Inr (matrix_of n (\<lambda>i j. if m i j then l i j else d i j))"
  using scatter_rows_select [of d "[0..<n]" "[0..<n]" m l "[]"]
  by (simp add: masked_scatter_def masked_select_def matrix_of_def)

lemma sum_rows_matrix_of:
  "map sum_list (matrix_of n f) = map (\<lambda>i. sum_list (map (f i) [0..<n])) [0..<n]"
  by (simp add: matrix_of_def comp_def)

lemma class_balanced_mean_matrix_of:
  "class_balanced_mean n (matrix_of n y) (matrix_of n l) =
   Inr (mean (map (\<lambda>i. fadd (fdiv (Fin (sum_list (map (\<lambda>j. if y i j \<noteq> 0 then l i j else 0) [0..<n])))
                                 (Fin (sum_list (map (y i) [0..<n]))))
                           (fdiv (Fin (sum_list (map (\<lambda>j. if y i j \<noteq> 0 then 0 else l i j) [0..<n])))
                                 (Fin (real n - sum_list (map (y i) [0..<n])))))
                  [0..<n]))"
proof -
  have neg: "map (map Not) (matrix_of n (\<lambda>i j. y i j \<noteq> 0)) = matrix_of n (\<lambda>i j. \<not> y i j \<noteq> 0)"
    by (rule map_map_matrix_of)
  have pos_scatter:
    "masked_scatter (zeros n n) (matrix_of n (\<lambda>i j. y i j \<noteq> 0))
        (masked_select (matrix_of n l) (matrix_of n (\<lambda>i j. y i j \<noteq> 0))) =
     Inr (matrix_of n (\<lambda>i j. if y i j \<noteq> 0 then l i j else 0))"
    unfolding zeros_matrix_of by (rule masked_scatter_select)
  have neg_scatter:
    "masked_scatter (zeros n n) (matrix_of n (\<lambda>i j. \<not> y i j \<noteq> 0))
        (masked_select (matrix_of n l) (matrix_of n (\<lambda>i j. \<not> y i j \<noteq> 0))) =
     Inr (matrix_of n (\<lambda>i j. if \<not> y i j \<noteq> 0 then l i j else 0))"
    unfolding zeros_matrix_of by (rule masked_scatter_select)
  have flip: "matrix_of n (\<lambda>i j. if \<not> y i j \<noteq> 0 then l i j else 0) =
              matrix_of n (\<lambda>i j. if y i j \<noteq> 0 then 0 else l i j)"
    by (rule matrix_of_cong) simp
  show ?thesis
    unfolding class_balanced_mean_def Let_def bool_matrix_of neg pos_scatter neg_scatter flip
    by (simp add: sum_rows_matrix_of zip_map_same comp_def)
qed

subsection \<open>The NT-BXent loss is the class-balanced mean\<close>

lemma in_range_iff:
  "in_range n P = (\<forall>(i, j) \<in> set P. 0 \<le> i \<and> i < int n \<and> 0 \<le> j \<and> j < int n)"
  by (simp add: in_range_def list_all_iff)

lemma in_range_diagonal: "in_range n (diagonal_indices n)"
  by (auto simp add: in_range_iff diagonal_indices_def arange_def)

lemma in_range_append: "in_range n (P @ Q) = (in_range n P \<and> in_range n Q)"
  by (simp add: in_range_def)

lemma mem_diagonal_indices:
  "i < n \<Longrightarrow> ((int i, int j) \<in> set (diagonal_indices n)) = (i = j)"
  by (auto simp add: diagonal_indices_def arange_def)

lemma target_matrix_in_range:
  assumes "in_range n P"
  shows "target_matrix n P = Inr (matrix_of n (spec_target P))"
proof -
  have "in_range n (P @ diagonal_indices n)"
    using assms by (simp add: in_range_append in_range_diagonal)
  then have "target_matrix n P =
        Inr (matrix_of n (\<lambda>i j. if (int i, int j) \<in> set (P @ diagonal_indices n) then 1 else 0))"
    unfolding target_matrix_def zeros_matrix_of in_range_iff by (rule index_put_matrix_of)
  also have "matrix_of n (\<lambda>i j. if (int i, int j) \<in> set (P @ diagonal_indices n) then 1 else 0) =
             matrix_of n (spec_target P)"
    by (rule matrix_of_cong) (simp add: spec_target_def mem_diagonal_indices)
  finally show ?thesis .
qed

lemma sentinel_matrix_of:
  "masked_fill (cosine_similarity_matrix x) (bool (eye (length x))) v =
   matrix_of (length x) (\<lambda>i j. if i = j then v else cosine_similarity (x ! j) (x ! i))"
  by (simp add: cosine_similarity_matrix_of bool_eye_matrix_of masked_fill_matrix_of)

lemma spec_similarity_cosine: "cosine_similarity (x ! j) (x ! i) = Fin (spec_similarity x i j)"
  by (simp add: cosine_similarity_Fin spec_similarity_def dot_commute [of "x ! j"]
      cosine_denominator_def mult.commute)

lemma sigmoid_range: "0 \<le> 1 / (1 + exp (- a :: real)) \<and> 1 / (1 + exp (- a)) \<le> 1"
proof -
  have "0 < exp (- a)" by simp
  then show ?thesis by (simp add: add_pos_pos less_imp_le)
qed

lemma spec_probability_range: "0 \<le> spec_probability x t i j \<and> spec_probability x t i j \<le> 1"
  using sigmoid_range [of "spec_similarity x i j / t"] by (simp add: spec_probability_def)

lemma probabilities_matrix_of:
  assumes "0 < t"
  shows "map (map sigmoid)
           (scale (masked_fill (cosine_similarity_matrix x) (bool (eye (length x))) PInf) t) =
         matrix_of (length x) (\<lambda>i j. Fin (spec_probability x t i j))"
proof -
  have "map (map sigmoid)
           (scale (masked_fill (cosine_similarity_matrix x) (bool (eye (length x))) PInf) t) =
        matrix_of (length x)
          (\<lambda>i j. sigmoid (fdiv (if i = j then PInf else cosine_similarity (x ! j) (x ! i)) (Fin t)))"
    by (simp add: sentinel_matrix_of scale_matrix_of map_map_matrix_of)
  also have "\<dots> = matrix_of (length x) (\<lambda>i j. Fin (spec_probability x t i j))"
    using assms by (intro matrix_of_cong) (simp add: spec_similarity_cosine spec_probability_def)
  finally show ?thesis .
qed

lemma sum_list_if_filter:
  "sum_list (map (\<lambda>j. if P j then f j else (0::real)) js) = sum_list (map f (filter P js))"
  by (induction js) simp_all

lemma sum_list_indicator:
  "sum_list (map (\<lambda>j. if P j then (1::real) else 0) js) = real (length (filter P js))"
  by (induction js) simp_all

lemma fsum_Fin: "fsum (map (\<lambda>i. Fin (r i)) rs) = Fin (sum_list (map r rs))"
  by (induction rs) (simp_all add: fsum_def)

lemma mean_Fin:
  assumes "rs \<noteq> []"
  shows "mean (map (\<lambda>i. Fin (r i)) rs) = Fin (sum_list (map r rs) / real (length rs))"
  using assms by (simp add: mean_def fsum_Fin)

lemma spec_target_nonzero: "(spec_target P i j \<noteq> 0) = (spec_target P i j = 1)"
  by (simp add: spec_target_def)

lemma positive_sum:
  "sum_list (map (\<lambda>j. if spec_target P i j \<noteq> 0 then f j else (0::real)) [0..<n]) =
   sum_list (map f (positives P n i))"
  unfolding positives_def spec_target_nonzero by (rule sum_list_if_filter)

lemma negative_sum:
  "sum_list (map (\<lambda>j. if spec_target P i j \<noteq> 0 then (0::real) else f j) [0..<n]) =
   sum_list (map f (negatives P n i))"
proof -
  have "(\<lambda>j. if spec_target P i j \<noteq> 0 then 0 else f j) =
        (\<lambda>j. if spec_target P i j = 0 then f j else 0)"
    by auto
  then show ?thesis unfolding negatives_def by (simp only: sum_list_if_filter)
qed

lemma num_pos_count: "sum_list (map (spec_target P i) [0..<n]) = real (length (positives P n i))"
proof -
  have "spec_target P i = (\<lambda>j. if spec_target P i j = 1 then 1 else 0)"
    by (auto simp add: spec_target_def)
  then have "sum_list (map (spec_target P i) [0..<n]) =
             sum_list (map (\<lambda>j. if spec_target P i j = 1 then (1::real) else 0) [0..<n])"
    by simp
  then show ?thesis by (simp only: sum_list_indicator positives_def)
qed

lemma num_neg_count: "real n - real (length (positives P n i)) = real (length (negatives P n i))"
proof -
  have "(\<lambda>j. \<not> spec_target P i j = 1) = (\<lambda>j. spec_target P i j = 0)"
    by (auto simp add: spec_target_def)
  then have "length (positives P n i) + length (negatives P n i) = n"
    using sum_length_filter_compl [of "\<lambda>j. spec_target P i j = 1" "[0..<n]"]
    by (simp add: positives_def negatives_def)
  then show ?thesis by linarith
qed

lemma nt_bxent_loss_rows:
  assumes "0 < t" and "in_range (length x) P"
  shows "nt_bxent_loss x P t =
         Inr (mean (map (\<lambda>i.
                fadd (fdiv (Fin (sum_list (map (element_loss x P t i) (positives P (length x) i))))
                           (Fin (real (length (positives P (length x) i)))))
                     (fdiv (Fin (sum_list (map (element_loss x P t i) (negatives P (length x) i))))
                           (Fin (real (length (negatives P (length x) i))))))
              [0..<length x]))"
proof -
  have "binary_cross_entropy (matrix_of (length x) (\<lambda>i j. Fin (spec_probability x t i j)))
          (matrix_of (length x) (spec_target P)) =
        Inr (matrix_of (length x) (\<lambda>i j. bce (spec_probability x t i j) (spec_target P i j)))"
    by (rule binary_cross_entropy_matrix_of) (rule spec_probability_range)
  then have loss: "binary_cross_entropy (matrix_of (length x) (\<lambda>i j. Fin (spec_probability x t i j)))
          (matrix_of (length x) (spec_target P)) = Inr (matrix_of (length x) (element_loss x P t))"
    by (simp add: element_loss_def [abs_def])
  show ?thesis
    using assms
    by (simp add: nt_bxent_loss_def Let_def target_matrix_in_range bxent_of_similarity_def
        probabilities_matrix_of loss class_balanced_mean_matrix_of
        positive_sum negative_sum num_pos_count num_neg_count)
qed

lemma diagonal_positive: "i < n \<Longrightarrow> i \<in> set (positives P n i)"
  by (simp add: positives_def spec_target_def)

text \<open>
  Where neither logarithm reaches the clamp, the element loss of
  \<^verbatim>\<open>F.binary_cross_entropy\<close> is the textbook binary cross entropy.
\<close>

lemma bce_unclamped:
  assumes "0 < p" and "p < 1" and "- 100 \<le> ln p" and "- 100 \<le> ln (1 - p)"
  shows "bce p y = - (y * ln p + (1 - y) * ln (1 - p))"
  using assms by (simp add: bce_def clamped_log_def max_def algebra_simps)

lemma bce_one_one: "bce 1 1 = 0"
  by (simp add: bce_def clamped_log_def)

lemma exp_ten_bound: "1 + exp (10::real) \<le> exp 100"
proof -
  have "1 + (90::real) \<le> exp 90" by (rule exp_ge_add_one_self)
  then have "2 \<le> exp (90::real)" by simp
  then have "exp 10 * 2 \<le> exp 10 * exp (90::real)" by simp
  moreover have "exp (10::real) * exp 90 = exp 100" by (simp add: exp_add [symmetric])
  moreover have "1 \<le> exp (10::real)" by simp
  ultimately show ?thesis by linarith
qed

lemma ln_sigmoid: "ln (1 / (1 + exp (- z))) = - ln (1 + exp (- z :: real))"
proof -
  have "0 < 1 + exp (- z)" by (simp add: add_pos_pos)
  then show ?thesis by (simp add: ln_div)
qed

lemma one_minus_sigmoid: "1 - 1 / (1 + exp (- z)) = 1 / (1 + exp (z::real))"
proof -
  have "0 < 1 + exp (- z)" "0 < 1 + exp z" by (simp_all add: add_pos_pos)
  then show ?thesis by (simp add: exp_minus field_simps)
qed

lemma ln_sigmoid_bound:
  assumes "- 10 \<le> (z::real)"
  shows "- 100 \<le> ln (1 / (1 + exp (- z)))"
proof -
  have "exp (- z) \<le> exp 10" using assms by simp
  then have "1 + exp (- z) \<le> exp 100" using exp_ten_bound by linarith
  moreover have "0 < 1 + exp (- z)" by (simp add: add_pos_pos)
  ultimately have "ln (1 + exp (- z)) \<le> ln (exp (100::real))"
    by (simp only: ln_le_cancel_iff exp_gt_zero)
  then show ?thesis by (simp add: ln_sigmoid)
qed

lemma sigmoid_strict: "0 < 1 / (1 + exp (- z :: real)) \<and> 1 / (1 + exp (- z)) < 1"
proof -
  have "0 < exp (- z)" by simp
  then show ?thesis by (simp add: add_pos_pos)
qed

text \<open>
  Off the diagonal and for a scaled similarity of absolute value at most 10, neither
  logarithm reaches the clamp, and the element loss of the code is the element loss of the
  specification. On the diagonal both are 0.
\<close>

lemma element_loss_unclamped:
  assumes "i \<noteq> j" and "\<bar>spec_similarity x i j / t\<bar> \<le> 10"
  shows "element_loss x P t i j = spec_bce x P t i j"
proof -
  let ?z = "spec_similarity x i j / t"
  let ?p = "1 / (1 + exp (- ?z))"
  from assms(2) have lo: "- 10 \<le> ?z" and hi: "- 10 \<le> - ?z" by linarith+
  have "- 100 \<le> ln ?p" using lo by (rule ln_sigmoid_bound)
  moreover have "- 100 \<le> ln (1 - ?p)"
    using ln_sigmoid_bound [OF hi] by (simp add: one_minus_sigmoid)
  moreover have "0 < ?p" "?p < 1" using sigmoid_strict [of ?z] by simp_all
  ultimately have "bce ?p (spec_target P i j) =
        - (spec_target P i j * ln ?p + (1 - spec_target P i j) * ln (1 - ?p))"
    by (intro bce_unclamped)
  then show ?thesis
    using assms(1) by (simp add: element_loss_def spec_bce_def spec_probability_def)
qed

lemma element_loss_diagonal: "element_loss x P t i i = 0" "spec_bce x P t i i = 0"
  by (simp_all add: element_loss_def spec_bce_def spec_probability_def spec_target_def bce_one_one)

lemma element_loss_row:
  assumes "i < n" and "set js \<subseteq> {0..<n}"
    and "\<forall>i < n. \<forall>j < n. i \<noteq> j \<longrightarrow> \<bar>spec_similarity x i j / t\<bar> \<le> 10"
  shows "map (element_loss x P t i) js = map (spec_bce x P t i) js"
proof (rule map_cong [OF refl])
  fix j
  assume "j \<in> set js"
  then have j: "j < n" using assms(2) by auto
  show "element_loss x P t i j = spec_bce x P t i j"
  proof (cases "i = j")
    case True
    then show ?thesis by (simp add: element_loss_diagonal)
  next
    case False
    then show ?thesis using assms(1,3) j by (intro element_loss_unclamped) simp_all
  qed
qed

text \<open>
  Claim C2 (amended). For a batch of at least two vectors, a positive temperature,
  in-range positive pairs that leave every row a negative column, and off-diagonal
  similarities whose quotient by the temperature has absolute value at most 10,
  \<^verbatim>\<open>nt_bxent_loss\<close> returns the arithmetic mean over the rows of: the sum of the element
  losses of the positive columns over their number, plus the sum of the element losses of
  the negative columns over their number. The element loss is
  \<open>-(T log P + (1 - T) log(1 - P))\<close> for the probability \<open>P\<close>, the sigmoid of the
  similarity over the temperature, and the target \<open>T\<close>; on the diagonal the sentinel
  \<open>+\<infinity>\<close> gives probability 1 and element loss 0.
\<close>

theorem nt_bxent_loss_class_balanced_mean:
  assumes "2 \<le> length x" and "0 < t" and "in_range (length x) P"
    and "\<forall>i < length x. negatives P (length x) i \<noteq> []"
    and "\<forall>i < length x. \<forall>j < length x. i \<noteq> j \<longrightarrow> \<bar>spec_similarity x i j / t\<bar> \<le> 10"
  shows "nt_bxent_loss x P t = Inr (Fin (spec_nt_bxent x P t)) \<and>
         (\<forall>i < length x. spec_bce x P t i i = 0) \<and>
         bce_element (sigmoid (fdiv PInf (Fin t))) 1 = Inr 0"
proof -
  have row: "fadd (fdiv (Fin (sum_list (map (element_loss x P t i) (positives P (length x) i))))
                        (Fin (real (length (positives P (length x) i)))))
                  (fdiv (Fin (sum_list (map (element_loss x P t i) (negatives P (length x) i))))
                        (Fin (real (length (negatives P (length x) i))))) =
             Fin (spec_row_loss x P t i)" if "i \<in> set [0..<length x]" for i
  proof -
    from that have i: "i < length x" by simp
    have pos: "map (element_loss x P t i) (positives P (length x) i) =
               map (spec_bce x P t i) (positives P (length x) i)"
      using i assms(5) by (intro element_loss_row [where n = "length x"]) (auto simp add: positives_def)
    have neg: "map (element_loss x P t i) (negatives P (length x) i) =
               map (spec_bce x P t i) (negatives P (length x) i)"
      using i assms(5) by (intro element_loss_row [where n = "length x"]) (auto simp add: negatives_def)
    have "positives P (length x) i \<noteq> []"
      using diagonal_positive [OF i, of P] by auto
    moreover have "negatives P (length x) i \<noteq> []"
      using assms(4) i by simp
    ultimately show ?thesis by (simp add: spec_row_loss_def pos neg)
  qed
  have "nt_bxent_loss x P t = Inr (mean (map (\<lambda>i. Fin (spec_row_loss x P t i)) [0..<length x]))"
    unfolding nt_bxent_loss_rows [OF assms(2,3)]
    by (rule arg_cong [where f = "\<lambda>rs. Inr (mean rs)"], rule map_cong [OF refl]) (rule row)
  also have "mean (map (\<lambda>i. Fin (spec_row_loss x P t i)) [0..<length x]) =
             Fin (spec_nt_bxent x P t)"
    using assms(1) by (auto simp add: mean_def fsum_Fin spec_nt_bxent_def)
  finally have "nt_bxent_loss x P t = Inr (Fin (spec_nt_bxent x P t))" .
  moreover have "\<forall>i < length x. spec_bce x P t i i = 0"
    by (simp add: element_loss_diagonal)
  moreover have "bce_element (sigmoid (fdiv PInf (Fin t))) 1 = Inr 0"
    using assms(2) by (simp add: bce_one_one)
  ultimately show ?thesis by simp
qed

text \<open>
  The similarity of two vectors lies between -1 and 1, so every temperature of at least
  1/10 keeps the quotients within the bound of the theorem.
\<close>

lemma sum_squares_nonneg: "0 \<le> sum_list (map (\<lambda>v. v * v) (c :: real list))"
  by (induction c) simp_all

lemma dot_squared_le:
  "(dot a b)\<^sup>2 \<le> sum_list (map (\<lambda>v. v * v) a) * sum_list (map (\<lambda>v. v * v) b)"
proof (induction a arbitrary: b)
  case Nil
  then show ?case by (simp add: dot_def)
next
  case (Cons h a)
  note nonneg = sum_squares_nonneg
  show ?case
  proof (cases b)
    case Nil
    then show ?thesis using nonneg [of "h # a"] by (simp add: dot_def)
  next
    case (Cons k b')
    let ?S = "dot a b'" and ?A = "sum_list (map (\<lambda>v. v * v) a)"
      and ?B = "sum_list (map (\<lambda>v. v * v) b')"
    have ih: "?S\<^sup>2 \<le> ?A * ?B" by (rule Cons.IH)
    have A: "0 \<le> ?A" and B: "0 \<le> ?B" by (rule nonneg)+
    have "(2 * h * k * ?S)\<^sup>2 = 4 * (h * h) * (k * k) * ?S\<^sup>2"
      by (simp add: power2_eq_square algebra_simps)
    also have "\<dots> \<le> 4 * (h * h) * (k * k) * (?A * ?B)"
      using ih by (intro mult_left_mono) simp_all
    also have "\<dots> \<le> (h * h * ?B + k * k * ?A)\<^sup>2"
    proof -
      have "0 \<le> (h * h * ?B - k * k * ?A)\<^sup>2" by simp
      then show ?thesis by (simp add: power2_eq_square algebra_simps)
    qed
    finally have "(2 * h * k * ?S)\<^sup>2 \<le> (h * h * ?B + k * k * ?A)\<^sup>2" .
    moreover have "0 \<le> h * h * ?B + k * k * ?A"
      using A B by simp
    ultimately have cross: "2 * h * k * ?S \<le> h * h * ?B + k * k * ?A"
      by (rule power2_le_imp_le)
    have "(h * k + ?S)\<^sup>2 = (h * h) * (k * k) + 2 * h * k * ?S + ?S\<^sup>2"
      by (simp add: power2_eq_square algebra_simps)
    also have "\<dots> \<le> (h * h) * (k * k) + (h * h * ?B + k * k * ?A) + ?A * ?B"
      using cross ih by linarith
    also have "\<dots> = (h * h + ?A) * (k * k + ?B)"
      by (simp add: algebra_simps)
    finally show ?thesis
      by (simp add: Cons dot_def)
  qed
qed

lemma abs_dot_le: "\<bar>dot a b\<bar> \<le> vector_norm a * vector_norm b"
proof -
  have "sqrt ((dot a b)\<^sup>2) \<le>
        sqrt (sum_list (map (\<lambda>v. v * v) a) * sum_list (map (\<lambda>v. v * v) b))"
    using dot_squared_le by (rule real_sqrt_le_mono)
  then show ?thesis by (simp add: vector_norm_def real_sqrt_mult)
qed

lemma abs_spec_similarity_le_one: "\<bar>spec_similarity x i j\<bar> \<le> 1"
proof -
  let ?a = "x ! i" and ?b = "x ! j"
  have na: "0 \<le> vector_norm ?a" and nb: "0 \<le> vector_norm ?b"
    by (simp_all add: vector_norm_def sum_squares_nonneg)
  have "vector_norm ?a * vector_norm ?b \<le> max (vector_norm ?a) eps * max (vector_norm ?b) eps"
    using na nb by (intro mult_mono) simp_all
  then have "\<bar>dot ?a ?b\<bar> \<le> cosine_denominator ?a ?b"
    using abs_dot_le [of ?a ?b] by (simp add: cosine_denominator_def)
  then have "\<bar>dot ?a ?b\<bar> / cosine_denominator ?a ?b \<le> 1"
    using cosine_denominator_pos [of ?a ?b] by simp
  moreover have "\<bar>spec_similarity x i j\<bar> = \<bar>dot ?a ?b\<bar> / cosine_denominator ?a ?b"
  proof -
    have "spec_similarity x i j = dot ?a ?b / cosine_denominator ?a ?b"
      by (simp add: spec_similarity_def cosine_denominator_def)
    moreover have "\<bar>cosine_denominator ?a ?b\<bar> = cosine_denominator ?a ?b"
      using cosine_denominator_pos [of ?a ?b] by simp
    ultimately show ?thesis by (simp only: abs_divide)
  qed
  ultimately show ?thesis by simp
qed

lemma temperature_bounds_logits:
  assumes "1 / 10 \<le> t"
  shows "\<bar>spec_similarity x i j / t\<bar> \<le> 10"
proof -
  from assms have t: "0 < t" by simp
  have "\<bar>spec_similarity x i j / t\<bar> = \<bar>spec_similarity x i j\<bar> / t"
    using t by simp
  also have "\<dots> \<le> 1 / t"
    using abs_spec_similarity_le_one [of x i j] t by (simp add: divide_right_mono)
  also have "\<dots> \<le> 10"
    using assms t by (simp add: field_simps)
  finally show ?thesis .
qed

theorem nt_bxent_loss_class_balanced_mean_witness:
  "nt_bxent_loss [[1, 0], [0, 1], [1, 1]] [(0, 1)] 1 =
     Inr (Fin (spec_nt_bxent [[1, 0], [0, 1], [1, 1]] [(0, 1)] 1)) \<and>
   spec_bce [[1, 0], [0, 1], [1, 1]] [(0, 1)] 1 0 0 = 0"
  using nt_bxent_loss_class_balanced_mean [of "[[1, 0], [0, 1], [1, 1]]" 1 "[(0, 1)]"]
    temperature_bounds_logits [of 1 "[[1, 0], [0, 1], [1, 1]]"]
  by (simp add: in_range_def negatives_def spec_target_def upt_rec All_less_Suc numeral_3_eq_3)

text \<open>Beyond a scaled similarity of 100 the clamp decides the element loss.\<close>

lemma clamped_log_saturated:
  assumes "100 \<le> z"
  shows "clamped_log (1 - 1 / (1 + exp (- z))) = - 100"
proof -
  have pos: "0 < 1 / (1 + exp z)" by (simp add: add_pos_pos)
  have "exp z \<le> 1 + exp z" by simp
  then have "ln (exp z) \<le> ln (1 + exp z)"
    by (simp only: ln_le_cancel_iff exp_gt_zero add_pos_pos zero_less_one)
  then have "ln (1 / (1 + exp z)) \<le> - 100"
    using assms ln_sigmoid [of "- z"] by simp
  then show ?thesis
    using pos by (simp add: clamped_log_def one_minus_sigmoid max_def)
qed

lemma similarity_of_equal_units:
  "spec_similarity [[1, 0], [1, 0]] 0 (Suc 0) = 1" "spec_similarity [[1, 0], [1, 0]] (Suc 0) 0 = 1"
  by (simp_all add: spec_similarity_def dot_def vector_norm_def eps_def)

lemma columns_of_two:
  "positives [] 2 0 = [0]" "negatives [] 2 0 = [Suc 0]"
  "positives [] 2 (Suc 0) = [Suc 0]" "negatives [] 2 (Suc 0) = [0]"
  by (simp_all add: positives_def negatives_def spec_target_def upt_rec numeral_2_eq_2)

text \<open>
  Claim C2 as stated fails: for two equal unit vectors, no declared pair and temperature
  1/1000 the scaled similarity is 1000. The code returns 100, the clamp of
  \<^verbatim>\<open>F.binary_cross_entropy\<close>, where the mean of the specification's element losses
  exceeds 1000.
\<close>

theorem nt_bxent_loss_clamp_counterexample:
  "nt_bxent_loss [[1, 0], [1, 0]] [] (1 / 1000) = Inr (Fin 100) \<and>
   1000 < spec_nt_bxent [[1, 0], [1, 0]] [] (1 / 1000)"
proof -
  let ?x = "[[1, 0], [1, 0 :: real]]"
  have len: "length ?x = 2" by simp
  have loss: "element_loss ?x [] (1 / 1000) 0 (Suc 0) = 100"
    "element_loss ?x [] (1 / 1000) (Suc 0) 0 = 100"
    using clamped_log_saturated [of 1000]
    by (simp_all add: element_loss_def spec_probability_def spec_target_def
        similarity_of_equal_units bce_def)
  have two: "[0..<2] = [0, Suc 0]" by (simp add: upt_rec numeral_2_eq_2)
  have "nt_bxent_loss ?x [] (1 / 1000) =
        Inr (mean (map (\<lambda>i.
                fadd (fdiv (Fin (sum_list (map (element_loss ?x [] (1 / 1000) i)
                                               (positives [] (length ?x) i))))
                           (Fin (real (length (positives [] (length ?x) i)))))
                     (fdiv (Fin (sum_list (map (element_loss ?x [] (1 / 1000) i)
                                               (negatives [] (length ?x) i))))
                           (Fin (real (length (negatives [] (length ?x) i))))))
              [0..<length ?x]))"
    by (rule nt_bxent_loss_rows) (simp_all add: in_range_def)
  then have "nt_bxent_loss ?x [] (1 / 1000) =
        Inr (mean [fadd (fdiv (Fin (element_loss ?x [] (1 / 1000) 0 0)) (Fin 1))
                        (fdiv (Fin (element_loss ?x [] (1 / 1000) 0 (Suc 0))) (Fin 1)),
                   fadd (fdiv (Fin (element_loss ?x [] (1 / 1000) (Suc 0) (Suc 0))) (Fin 1))
                        (fdiv (Fin (element_loss ?x [] (1 / 1000) (Suc 0) 0)) (Fin 1))])"
    unfolding len two by (simp add: columns_of_two)
  then have code: "nt_bxent_loss ?x [] (1 / 1000) = Inr (Fin 100)"
    by (simp add: element_loss_diagonal loss mean_def fsum_def)
  have "0 < 1 + exp (- 1000 :: real)" by (simp add: add_pos_pos)
  have big: "1000 < ln (1 + exp (1000::real))"
  proof -
    have "exp (1000::real) < 1 + exp 1000" by simp
    then have "ln (exp (1000::real)) < ln (1 + exp 1000)"
      by (simp only: ln_less_cancel_iff exp_gt_zero add_pos_pos zero_less_one)
    then show ?thesis by simp
  qed
  have spec: "spec_bce ?x [] (1 / 1000) 0 (Suc 0) = ln (1 + exp 1000)"
    "spec_bce ?x [] (1 / 1000) (Suc 0) 0 = ln (1 + exp 1000)"
    using ln_sigmoid [of "- 1000"]
    by (simp_all add: spec_bce_def spec_probability_def spec_target_def
        similarity_of_equal_units one_minus_sigmoid)
  have "spec_nt_bxent ?x [] (1 / 1000) = ln (1 + exp 1000)"
    unfolding spec_nt_bxent_def spec_row_loss_def len two
    by (simp add: columns_of_two element_loss_diagonal spec)
  then show ?thesis using code big by simp
qed

subsection \<open>The target matrix depends on the set of pairs\<close>

lemma spec_target_set: "set P' = set P \<Longrightarrow> spec_target P' = spec_target P"
  by (simp add: spec_target_def [abs_def])

text \<open>
  Claim C8. For in-range positive pairs \<open>P\<close> the target matrix built by
  \<^verbatim>\<open>nt_bxent_loss\<close> has entry 1 at \<open>(i, j)\<close> exactly when \<open>(i, j)\<close> is in \<open>P\<close> or on the
  diagonal, and 0 elsewhere: the diagonal is positive whether or not the caller lists it.
  A list \<open>P'\<close> that names the same pairs, some of them several times, gives the same
  target matrix and the same loss.
\<close>

theorem target_matrix_indicator:
  assumes "in_range (length x) P" and "set P' = set P"
  shows "target_matrix (length x) P = Inr (matrix_of (length x) (spec_target P)) \<and>
         (\<forall>i < length x. \<forall>j < length x.
            matrix_of (length x) (spec_target P) ! i ! j =
              (if (int i, int j) \<in> set P \<or> i = j then 1 else 0)) \<and>
         target_matrix (length x) P' = target_matrix (length x) P \<and>
         nt_bxent_loss x P' t = nt_bxent_loss x P t"
proof -
  have "in_range (length x) P'"
    using assms by (simp add: in_range_iff)
  then have "target_matrix (length x) P' = Inr (matrix_of (length x) (spec_target P'))"
    by (rule target_matrix_in_range)
  then have same: "target_matrix (length x) P' = target_matrix (length x) P"
    by (simp only: target_matrix_in_range [OF assms(1)] spec_target_set [OF assms(2)])
  have "\<forall>i < length x. \<forall>j < length x. matrix_of (length x) (spec_target P) ! i ! j =
          (if (int i, int j) \<in> set P \<or> i = j then 1 else 0)"
    by (simp add: nth_matrix_of spec_target_def)
  moreover have "nt_bxent_loss x P' t = nt_bxent_loss x P t"
    by (simp only: nt_bxent_loss_def Let_def same)
  ultimately show ?thesis
    using same target_matrix_in_range [OF assms(1)] by blast
qed

theorem target_matrix_indicator_witness:
  "target_matrix (length [[1, 0], [0, 1 :: real]]) [(0, 1)] = Inr [[1, 1], [0, 1]] \<and>
   target_matrix (length [[1, 0], [0, 1 :: real]]) [(0, 1), (0, 1)] =
     target_matrix (length [[1, 0], [0, 1 :: real]]) [(0, 1)] \<and>
   nt_bxent_loss [[1, 0], [0, 1]] [(0, 1), (0, 1)] 1 =
     nt_bxent_loss [[1, 0], [0, 1]] [(0, 1)] 1"
  using target_matrix_indicator [of "[[1, 0], [0, 1]]" "[(0, 1)]" "[(0, 1), (0, 1)]" 1]
  by (simp add: in_range_def matrix_of_def spec_target_def upt_rec)

subsection \<open>A row without negatives\<close>

lemma fadd_NaN_right: "fadd v NaN = NaN"
  by (cases v) simp_all

lemma fsum_NaN: "NaN \<in> set vs \<Longrightarrow> fsum vs = NaN"
proof (induction vs)
  case Nil
  then show ?case by simp
next
  case (Cons v vs)
  show ?case
  proof (cases "v = NaN")
    case True
    then show ?thesis by (simp add: fsum_def)
  next
    case False
    with Cons have "foldr fadd vs (Fin 0) = NaN" by (simp add: fsum_def)
    then show ?thesis by (simp add: fsum_def fadd_NaN_right)
  qed
qed

lemma mean_NaN: "NaN \<in> set vs \<Longrightarrow> mean vs = NaN"
  by (simp add: mean_def fsum_NaN)

text \<open>
  Claim C6 (amended). For a batch of at least two vectors, a positive temperature and
  in-range positive pairs, if some row has no negative column, \<^verbatim>\<open>nt_bxent_loss\<close> does
  not raise: the row divides 0 by 0 and the function returns NaN.
\<close>

theorem nt_bxent_loss_no_negatives:
  assumes "2 \<le> length x" and "0 < t" and "in_range (length x) P"
    and "i < length x" and "negatives P (length x) i = []"
  shows "nt_bxent_loss x P t = Inr NaN"
proof -
  let ?row = "\<lambda>i. fadd (fdiv (Fin (sum_list (map (element_loss x P t i) (positives P (length x) i))))
                           (Fin (real (length (positives P (length x) i)))))
                     (fdiv (Fin (sum_list (map (element_loss x P t i) (negatives P (length x) i))))
                           (Fin (real (length (negatives P (length x) i)))))"
  have "?row i = NaN"
    using assms(5) by (simp add: fadd_NaN_right)
  then have "NaN \<in> set (map ?row [0..<length x])"
    using assms(4) by (metis (no_types, lifting) add_0 diff_zero in_set_conv_nth length_map length_upt nth_map nth_upt)
  then show ?thesis
    unfolding nt_bxent_loss_rows [OF assms(2,3)] by (simp only: mean_NaN)
qed

theorem nt_bxent_loss_no_negatives_witness:
  "nt_bxent_loss [[1, 0], [0, 1], [1, 1]] [(1, 0), (1, 2)] 1 = Inr NaN"
  using nt_bxent_loss_no_negatives [of "[[1, 0], [0, 1], [1, 1]]" 1 "[(1, 0), (1, 2)]" 1]
  by (simp add: in_range_def negatives_def spec_target_def upt_rec)

subsection \<open>Concrete calls that return where the specification expects an error\<close>

lemma vector_norm_unit: "vector_norm [1, 0] = 1" "vector_norm [0, 1] = 1"
  by (simp_all add: vector_norm_def)

lemma cosine_similarity_orthogonal:
  "cosine_similarity [1, 0] [0, 1] = Fin 0" "cosine_similarity [0, 1] [1, 0] = Fin 0"
  by (simp_all add: cosine_similarity_def dot_def cosine_denominator_def vector_norm_unit eps_def)

text \<open>
  Claim C6 as stated fails: with two vectors and the pair \<open>(0, 1)\<close> declared positive, row
  0 has no negative column, and the call returns NaN instead of raising.
\<close>

theorem nt_bxent_loss_no_negatives_counterexample:
  "nt_bxent_loss [[1, 0], [0, 1]] [(0, 1)] 1 = Inr NaN"
  by (simp add: nt_bxent_loss_def target_matrix_def zeros_def diagonal_indices_def arange_def
      wrap_index_def masked_fill_def cosine_similarity_matrix_def cosine_similarity_orthogonal
      eye_def bool_def upt_rec numeral_2_eq_2 bxent_of_similarity_def scale_def
      binary_cross_entropy_def class_balanced_mean_def masked_scatter_def masked_select_def
      mean_def fsum_def)

lemma clamped_log_half: "clamped_log (1 / 2) = - ln 2"
proof -
  have "ln (2::real) < 1" by (rule ln_2_less_1)
  then have "- 100 \<le> - ln (2::real)" by simp
  then show ?thesis by (simp add: clamped_log_def ln_div)
qed

lemma target_matrix_identity: "target_matrix 2 [] = Inr [[1, 0], [0, 1]]"
  by (simp add: target_matrix_def zeros_def diagonal_indices_def arange_def wrap_index_def
      upt_rec numeral_2_eq_2)

lemma negative_temperature_element_losses:
  "binary_cross_entropy
     (map (map sigmoid)
        (scale (masked_fill (cosine_similarity_matrix [[1, 0], [0, 1]]) (bool (eye 2)) PInf) (- 1)))
     [[1, 0], [0, 1]] = Inr [[100, ln 2], [ln 2, 100]]"
proof -
  have "clamped_log 0 = - 100" by (simp add: clamped_log_def)
  then show ?thesis
    by (simp add: masked_fill_def cosine_similarity_matrix_def cosine_similarity_orthogonal
        eye_def bool_def upt_rec numeral_2_eq_2 scale_def binary_cross_entropy_def bce_def
        clamped_log_half)
qed

lemma negative_temperature_reduction:
  "class_balanced_mean 2 [[1, 0], [0, 1]] [[100, ln 2], [ln 2, 100]] = Inr (Fin (100 + ln 2))"
  by (simp add: class_balanced_mean_def bool_def masked_scatter_def masked_select_def zeros_def
      numeral_2_eq_2 mean_def fsum_def)

text \<open>
  Claim C4 as stated fails: at temperature -1 \<^verbatim>\<open>nt_bxent_loss\<close> returns a number.
  The sentinel on the diagonal becomes \<open>-\<infinity>\<close>, its probability 0 and its clamped element
  loss 100; the two off-diagonal entries have probability 1/2.
\<close>

theorem nt_bxent_loss_negative_temperature_counterexample:
  "nt_bxent_loss [[1, 0], [0, 1]] [] (- 1) = Inr (Fin (100 + ln 2))"
proof -
  have "length [[1, 0], [0, 1 :: real]] = 2" by simp
  then show ?thesis
    by (simp only: nt_bxent_loss_def Let_def target_matrix_identity bxent_of_similarity_def
        negative_temperature_element_losses negative_temperature_reduction sum.case)
qed

subsection \<open>The fixed target length of NT-Xent\<close>

lemma nt_xent_target_value: "nt_xent_target = [1, 0, 3, 2, 5, 4, 7, 6]"
  by (simp add: nt_xent_target_def strided_add_def arange_def upt_rec)

lemma length_scaled_similarity:
  "length (scale (masked_fill (cosine_similarity_matrix x) (bool (eye (length x))) v) t) = length x"
  by (simp add: sentinel_matrix_of scale_matrix_of)

lemma nt_xent_loss_wrong_size:
  assumes "length x \<noteq> 8"
  shows "nt_xent_loss x t = Inl ValueError"
  using assms
  by (simp add: nt_xent_loss_def Let_def cross_entropy_def length_scaled_similarity
      nt_xent_target_value)

text \<open>
  Claim C5. For every batch with an odd number of vectors \<^verbatim>\<open>nt_xent_loss\<close> fails
  instead of computing a loss. The exception is Python's ValueError, raised by
  \<^verbatim>\<open>F.cross_entropy\<close> because the batch size differs from the number of targets.
\<close>

theorem nt_xent_loss_odd_batch:
  assumes "odd (length x)"
  shows "nt_xent_loss x t = Inl ValueError"
proof -
  from assms have "length x \<noteq> 8" by auto
  then show ?thesis by (rule nt_xent_loss_wrong_size)
qed

theorem nt_xent_loss_odd_batch_witness:
  "nt_xent_loss [[1, 0], [0, 1], [1, 1], [1, 2], [2, 1], [0, 3], [3, 0]] 1 = Inl ValueError"
  using nt_xent_loss_odd_batch [of "[[1, 0], [0, 1], [1, 1], [1, 2], [2, 1], [0, 3], [3, 0]]" 1]
  by simp

text \<open>
  Claim C1 at a batch of ten vectors: the target tensor is built from
  \<^verbatim>\<open>torch.arange(8)\<close> whatever the batch is, so it has eight entries; there is no
  \<open>target[8]\<close> or \<open>target[9]\<close>, and the call raises ValueError.
\<close>

theorem nt_xent_target_fixed_length:
  "nt_xent_target = [1, 0, 3, 2, 5, 4, 7, 6] \<and> length nt_xent_target = 8 \<and>
   nt_xent_loss (replicate 10 [1, 0]) 1 = Inl ValueError"
  using nt_xent_loss_wrong_size [of "replicate 10 [1, 0]" 1]
  by (simp add: nt_xent_target_value)

text \<open>
  Claim C3 at a batch of two vectors and temperature 1: the eight targets do not match
  the two rows of logits and the call raises ValueError instead of returning the mean
  cross entropy.
\<close>

theorem nt_xent_loss_batch_of_two:
  "nt_xent_loss [[1, 0], [0, 1]] 1 = Inl ValueError"
  using nt_xent_loss_wrong_size [of "[[1, 0], [0, 1]]" 1] by simp

subsection \<open>Negative temperatures\<close>

lemma nt_xent_target_partner: "nt_xent_target = map (\<lambda>i. int (partner i)) [0..<8]"
  by (simp add: nt_xent_target_value partner_def upt_rec)

lemma partner_less: "i < 8 \<Longrightarrow> partner i < 8"
  by (auto simp add: partner_def elim: oddE)

lemma length_log_softmax: "length (log_softmax row) = length row"
  by (simp add: log_softmax_def Let_def)

lemma cross_entropy_matrix_of:
  "cross_entropy (matrix_of 8 g) nt_xent_target =
   Inr (mean (map (\<lambda>i. fneg (log_softmax (map (g i) [0..<8]) ! partner i)) [0..<8]))"
proof -
  have "collect (map (\<lambda>i. nll (log_softmax (map (g i) [0..<8])) (int (partner i))) [0..<8]) =
        Inr (map (\<lambda>i. fneg (log_softmax (map (g i) [0..<8]) ! partner i)) [0..<8])"
    by (rule collect_Inr) (simp add: nll_def length_log_softmax partner_less)
  then show ?thesis
    by (simp add: cross_entropy_def nt_xent_target_partner matrix_of_def zip_map_same comp_def)
qed

lemma nt_xent_loss_size_eight:
  assumes "length x = 8"
  shows "nt_xent_loss x t =
         Inr (mean (map (\<lambda>i. fneg (log_softmax
                        (map (\<lambda>j. fdiv (if i = j then NInf else cosine_similarity (x ! j) (x ! i)) (Fin t))
                             [0..<8]) ! partner i)) [0..<8]))"
  unfolding nt_xent_loss_def Let_def sentinel_matrix_of scale_matrix_of
  by (simp only: assms cross_entropy_matrix_of)

lemma probabilities_any_temperature:
  assumes "t \<noteq> 0"
  shows "\<exists>q. map (map sigmoid)
               (scale (masked_fill (cosine_similarity_matrix x) (bool (eye (length x))) PInf) t) =
             matrix_of (length x) (\<lambda>i j. Fin (q i j)) \<and>
             (\<forall>i j. 0 \<le> q i j \<and> q i j \<le> 1)"
proof -
  let ?q = "\<lambda>i j. if i = j then (if 0 < t then 1 else 0)
                   else 1 / (1 + exp (- (spec_similarity x i j / t)))"
  have "map (map sigmoid)
           (scale (masked_fill (cosine_similarity_matrix x) (bool (eye (length x))) PInf) t) =
        matrix_of (length x)
          (\<lambda>i j. sigmoid (fdiv (if i = j then PInf else cosine_similarity (x ! j) (x ! i)) (Fin t)))"
    by (simp add: sentinel_matrix_of scale_matrix_of map_map_matrix_of)
  also have "\<dots> = matrix_of (length x) (\<lambda>i j. Fin (?q i j))"
    using assms by (intro matrix_of_cong) (simp add: spec_similarity_cosine)
  finally have eq: "map (map sigmoid)
           (scale (masked_fill (cosine_similarity_matrix x) (bool (eye (length x))) PInf) t) =
        matrix_of (length x) (\<lambda>i j. Fin (?q i j))" .
  have range: "\<forall>i j. 0 \<le> ?q i j \<and> ?q i j \<le> 1"
    using sigmoid_range by simp
  show ?thesis
  proof (intro exI [where x = ?q] conjI)
    show "map (map sigmoid)
           (scale (masked_fill (cosine_similarity_matrix x) (bool (eye (length x))) PInf) t) =
          matrix_of (length x) (\<lambda>i j. Fin (?q i j))"
      by (rule eq)
    show "\<forall>i j. 0 \<le> ?q i j \<and> ?q i j \<le> 1"
      by (rule range)
  qed
qed

text \<open>
  Claim C4 (amended). The functions do not check the temperature. For every negative
  temperature \<^verbatim>\<open>nt_bxent_loss\<close> with in-range positive pairs returns a value, and so
  does \<^verbatim>\<open>nt_xent_loss\<close> on a batch of eight vectors; neither raises.
\<close>

theorem losses_accept_negative_temperature:
  assumes "t < 0" and "in_range (length x) P" and "length y = 8"
  shows "(\<exists>v. nt_bxent_loss x P t = Inr v) \<and> (\<exists>v. nt_xent_loss y t = Inr v)"
proof -
  from assms(1) have "t \<noteq> 0" by simp
  then obtain q where
    q: "map (map sigmoid)
          (scale (masked_fill (cosine_similarity_matrix x) (bool (eye (length x))) PInf) t) =
        matrix_of (length x) (\<lambda>i j. Fin (q i j))"
    and range: "\<forall>i j. 0 \<le> q i j \<and> q i j \<le> 1"
    using probabilities_any_temperature by blast
  have "binary_cross_entropy (matrix_of (length x) (\<lambda>i j. Fin (q i j)))
          (matrix_of (length x) (spec_target P)) =
        Inr (matrix_of (length x) (\<lambda>i j. bce (q i j) (spec_target P i j)))"
    by (rule binary_cross_entropy_matrix_of) (simp add: range)
  then have "\<exists>v. nt_bxent_loss x P t = Inr v"
    using assms(2)
    by (simp add: nt_bxent_loss_def Let_def target_matrix_in_range bxent_of_similarity_def q
        class_balanced_mean_matrix_of)
  moreover have "\<exists>v. nt_xent_loss y t = Inr v"
    using nt_xent_loss_size_eight [OF assms(3)] by blast
  ultimately show ?thesis by simp
qed

theorem losses_accept_negative_temperature_witness:
  "(\<exists>v. nt_bxent_loss [[1, 0], [0, 1]] [(0, 1)] (- 2) = Inr v) \<and>
   (\<exists>v. nt_xent_loss (replicate 8 [1, 0]) (- 2) = Inr v)"
  using losses_accept_negative_temperature [of "- 2" "[[1, 0], [0, 1]]" "[(0, 1)]" "replicate 8 [1, 0]"]
  by (simp add: in_range_def)

subsection \<open>Calls on the heap\<close>

lemma nt_bxent_loss_heap_run:
  assumes "x < length h" and "p < length h"
    and "h ! x = FloatTensor xv" and "h ! p = IndexTensor pv"
  shows "\<exists>ext. nt_bxent_loss_heap x p t h = (nt_bxent_loss xv pv t, h @ ext)"
proof (cases "index_put (zeros (length xv) (length xv)) (pv @ diagonal_indices (length xv)) 1")
  case (Inl e)
  then show ?thesis
    using assms
    by (simp add: nt_bxent_loss_heap_def nt_bxent_loss_def target_matrix_def new_tensor_def
        index_put_inplace_def nth_append Let_def)
next
  case (Inr tv)
  then show ?thesis
    using assms
    by (simp add: nt_bxent_loss_heap_def nt_bxent_loss_def target_matrix_def new_tensor_def
        index_put_inplace_def masked_fill_inplace_def nth_append Let_def list_update_append)
qed

lemma nt_xent_loss_heap_run:
  assumes "x < length h" and "h ! x = FloatTensor xv"
  shows "\<exists>ext. nt_xent_loss_heap x t h = (nt_xent_loss xv t, h @ ext)"
  using assms
  by (simp add: nt_xent_loss_heap_def nt_xent_loss_def nt_xent_target_def new_tensor_def
      masked_fill_inplace_def strided_add_inplace_def nth_append Let_def list_update_append)

text \<open>
  Claim C9. On a heap where \<open>x\<close> addresses the caller's batch and \<open>p\<close> the caller's positive
  pairs, a call of either loss function returns the value of the pure function of the two
  tensors' contents, leaves every tensor that existed before the call unchanged (the
  batch and the pairs among them), and a second call on the resulting heap returns the
  same value as the first.
\<close>

theorem losses_deterministic_without_mutation:
  assumes "x < length h" and "p < length h"
    and "h ! x = FloatTensor xv" and "h ! p = IndexTensor pv"
  shows "fst (nt_bxent_loss_heap x p t h) = nt_bxent_loss xv pv t \<and>
         take (length h) (snd (nt_bxent_loss_heap x p t h)) = h \<and>
         fst (nt_bxent_loss_heap x p t (snd (nt_bxent_loss_heap x p t h))) =
           fst (nt_bxent_loss_heap x p t h) \<and>
         fst (nt_xent_loss_heap x t h) = nt_xent_loss xv t \<and>
         take (length h) (snd (nt_xent_loss_heap x t h)) = h \<and>
         fst (nt_xent_loss_heap x t (snd (nt_xent_loss_heap x t h))) =
           fst (nt_xent_loss_heap x t h)"
proof -
  obtain ext where b: "nt_bxent_loss_heap x p t h = (nt_bxent_loss xv pv t, h @ ext)"
    using nt_bxent_loss_heap_run [OF assms] by blast
  have "x < length (h @ ext)" "p < length (h @ ext)"
    "(h @ ext) ! x = FloatTensor xv" "(h @ ext) ! p = IndexTensor pv"
    using assms by (simp_all add: nth_append)
  then obtain ext' where b': "nt_bxent_loss_heap x p t (h @ ext) = (nt_bxent_loss xv pv t, h @ ext @ ext')"
    using nt_bxent_loss_heap_run [of x "h @ ext" p xv pv t] by auto
  obtain ex where c: "nt_xent_loss_heap x t h = (nt_xent_loss xv t, h @ ex)"
    using nt_xent_loss_heap_run [OF assms(1,3)] by blast
  have "x < length (h @ ex)" "(h @ ex) ! x = FloatTensor xv"
    using assms by (simp_all add: nth_append)
  then obtain ex' where c': "nt_xent_loss_heap x t (h @ ex) = (nt_xent_loss xv t, h @ ex @ ex')"
    using nt_xent_loss_heap_run [of x "h @ ex" xv t] by auto
  show ?thesis
    by (simp add: b b' c c')
qed

theorem losses_deterministic_without_mutation_witness:
  "fst (nt_bxent_loss_heap 0 1 1 [FloatTensor [[1, 0], [0, 1]], IndexTensor [(0, 1)]]) =
     nt_bxent_loss [[1, 0], [0, 1]] [(0, 1)] 1 \<and>
   take 2 (snd (nt_bxent_loss_heap 0 1 1 [FloatTensor [[1, 0], [0, 1]], IndexTensor [(0, 1)]])) =
     [FloatTensor [[1, 0], [0, 1]], IndexTensor [(0, 1)]] \<and>
   fst (nt_xent_loss_heap 0 1 [FloatTensor [[1, 0], [0, 1]], IndexTensor [(0, 1)]]) =
     nt_xent_loss [[1, 0], [0, 1]] 1 \<and>
   take 2 (snd (nt_xent_loss_heap 0 1 [FloatTensor [[1, 0], [0, 1]], IndexTensor [(0, 1)]])) =
     [FloatTensor [[1, 0], [0, 1]], IndexTensor [(0, 1)]]"
  using losses_deterministic_without_mutation
          [of 0 "[FloatTensor [[1, 0], [0, 1]], IndexTensor [(0, 1)]]" 1
              "[[1, 0], [0, 1]]" "[(0, 1)]" 1]
  by (simp add: numeral_2_eq_2)

subsection \<open>The NT-Xent loss on a batch of eight\<close>

lemma row_maximum:
  "foldr fmax (map (\<lambda>j. if i = j then NInf else Fin (a j)) js) NInf = NInf \<and> set js \<subseteq> {i} \<or>
   (\<exists>m. foldr fmax (map (\<lambda>j. if i = j then NInf else Fin (a j)) js) NInf = Fin m)"
proof (induction js)
  case Nil
  then show ?case by simp
next
  case (Cons j js)
  then show ?case by (cases "i = j") auto
qed

lemma shifted_exponentials:
  "fsum (map (\<lambda>v. fexp (fsub v (Fin m))) (map (\<lambda>j. if i = j then NInf else Fin (a j)) js)) =
   Fin (sum_list (map (\<lambda>j. if i = j then 0 else exp (a j - m)) js))"
  by (induction js) (simp_all add: fsum_def fsub_def)

lemma exponentials_factor:
  "sum_list (map (\<lambda>j. if i = j then 0 else exp (a j - m)) js) =
   exp (- m) * sum_list (map (\<lambda>j. if i = j then 0 else exp (a j :: real)) js)"
  by (induction js) (simp_all add: exp_diff exp_minus field_simps)

lemma exponentials_positive:
  assumes "c \<in> set js" and "c \<noteq> i"
  shows "0 < sum_list (map (\<lambda>j. if i = j then 0 else exp (a j :: real)) js)"
proof -
  have nonneg: "0 \<le> sum_list (map (\<lambda>j. if i = j then 0 else exp (a j)) ks)" for ks
    by (induction ks) simp_all
  from assms(1) show ?thesis
  proof (induction js)
    case Nil
    then show ?case by simp
  next
    case (Cons j js)
    show ?case
    proof (cases "j = c")
      case True
      then have "0 < exp (a j)" by simp
      then show ?thesis using True assms(2) nonneg [of js] by (simp add: add_pos_nonneg)
    next
      case False
      with Cons have "0 < sum_list (map (\<lambda>j. if i = j then 0 else exp (a j)) js)" by simp
      then show ?thesis by (simp add: add_nonneg_pos)
    qed
  qed
qed

lemma flog_pos: "0 < a \<Longrightarrow> flog (Fin a) = Fin (ln a)"
  by simp

lemma log_softmax_entry:
  assumes "k < length js" and "js ! k \<noteq> i"
  shows "log_softmax (map (\<lambda>j. if i = j then NInf else Fin (a j)) js) ! k =
         Fin (ln (exp (a (js ! k)) / sum_list (map (\<lambda>j. if i = j then 0 else exp (a j)) js)))"
proof -
  let ?row = "map (\<lambda>j. if i = j then NInf else Fin (a j)) js"
  let ?T = "sum_list (map (\<lambda>j. if i = j then 0 else exp (a j)) js)"
  from assms have mem: "js ! k \<in> set js" by simp
  then have "\<not> set js \<subseteq> {i}" using assms(2) by auto
  then obtain m where m: "foldr fmax ?row NInf = Fin m"
    using row_maximum [of i a js] by auto
  have T: "0 < ?T" using mem assms(2) by (rule exponentials_positive)
  then have S: "0 < exp (- m) * ?T" by simp
  have sum: "fsum (map (\<lambda>v. fexp (fsub v (Fin m))) ?row) = Fin (exp (- m) * ?T)"
    by (simp only: shifted_exponentials exponentials_factor)
  have entry: "?row ! k = Fin (a (js ! k))"
    using assms by simp
  have "log_softmax ?row ! k =
        fsub (fsub (?row ! k) (Fin m)) (flog (fsum (map (\<lambda>v. fexp (fsub v (Fin m))) ?row)))"
    using assms(1) by (simp only: log_softmax_def Let_def m nth_map length_map)
  also have "\<dots> = Fin (a (js ! k) - m - ln (exp (- m) * ?T))"
    unfolding sum entry flog_pos [OF S] by (simp add: fsub_def)
  also have "a (js ! k) - m - ln (exp (- m) * ?T) = ln (exp (a (js ! k)) / ?T)"
    using T by (simp add: ln_mult ln_div)
  finally show ?thesis .
qed

text \<open>
  On a batch of exactly eight vectors, the one size the fixed target fits, and a positive
  temperature, \<^verbatim>\<open>nt_xent_loss\<close> returns the mean over the rows of the softmax cross
  entropy against the partner row, the diagonal contributing 0 to each denominator.
\<close>

lemma nt_xent_loss_eight_is_mean_cross_entropy:
  assumes "length x = 8" and "0 < t"
  shows "nt_xent_loss x t = Inr (Fin (spec_nt_xent x t))"
proof -
  have row: "fneg (log_softmax
               (map (\<lambda>j. fdiv (if i = j then NInf else cosine_similarity (x ! j) (x ! i)) (Fin t))
                    [0..<8]) ! partner i) = Fin (spec_xent_row x t i)"
    if "i \<in> set [0..<8]" for i
  proof -
    from that have i: "i < 8" by simp
    have ne: "partner i \<noteq> i"
      by (cases "even i") (auto simp add: partner_def elim: oddE)
    have eq: "map (\<lambda>j. fdiv (if i = j then NInf else cosine_similarity (x ! j) (x ! i)) (Fin t)) [0..<8] =
          map (\<lambda>j. if i = j then NInf else Fin (spec_similarity x i j / t)) [0..<8]"
      using assms(2) by (simp add: spec_similarity_cosine)
    have "log_softmax (map (\<lambda>j. if i = j then NInf else Fin (spec_similarity x i j / t)) [0..<8])
                     ! partner i =
          Fin (ln (exp (spec_similarity x i ([0..<8] ! partner i) / t) /
                   sum_list (map (\<lambda>j. if i = j then 0 else exp (spec_similarity x i j / t)) [0..<8])))"
      using partner_less [OF i] ne by (intro log_softmax_entry) simp_all
    then have entry:
      "log_softmax (map (\<lambda>j. if i = j then NInf else Fin (spec_similarity x i j / t)) [0..<8])
                     ! partner i =
          Fin (ln (exp (spec_similarity x i (partner i) / t) /
                   sum_list (map (\<lambda>j. if i = j then 0 else exp (spec_similarity x i j / t)) [0..<8])))"
      using partner_less [OF i] by simp
    have "spec_xent_row x t i =
          - ln (exp (spec_similarity x i (partner i) / t) /
                   sum_list (map (\<lambda>j. if i = j then 0 else exp (spec_similarity x i j / t)) [0..<8]))"
      using ne by (simp add: spec_xent_row_def spec_exp_logit_def [abs_def] assms(1))
    then show ?thesis
      unfolding eq entry by simp
  qed
  have "nt_xent_loss x t = Inr (mean (map (\<lambda>i. Fin (spec_xent_row x t i)) [0..<8]))"
    unfolding nt_xent_loss_size_eight [OF assms(1)]
    by (rule arg_cong [where f = "\<lambda>rs. Inr (mean rs)"], rule map_cong [OF refl]) (rule row)
  then show ?thesis
    by (simp add: mean_def fsum_Fin spec_nt_xent_def assms(1))
qed

end
